theory Spec2Isabelle
  imports Complex_Main "HOL-Library.Sublist"
begin

section \<open>Data model of the decision module\<close>

text \<open>
  The embedding follows \<^verbatim>\<open>src/backend/trading/decision_module.py\<close>,
  \<^verbatim>\<open>src/backend/ai_analysis/ai_auto_optimizer.py\<close> and
  \<^verbatim>\<open>src/backend/trading/new_pair_scanner.py\<close>.
  Python floats are modelled as \<open>real\<close>; a float division by zero, which Python raises as
  \<^verbatim>\<open>ZeroDivisionError\<close>, is an explicit branch. Everything the code obtains from the
  network, the clock or the random generator is an explicit argument (an environment record).
  Writes to the log files are modelled as appends to lists and are assumed to succeed
  (\<^verbatim>\<open>log_trade\<close> catches its own I/O errors).
\<close>

datatype py_error = ZeroDivisionError | KeyError | AttributeError | ValueError | IndexError | OtherError

text \<open>One line of \<^verbatim>\<open>simulation_trades.log\<close> / \<^verbatim>\<open>real_trades.log\<close>.\<close>

record trade_entry =
  token :: string
  price :: real
  action :: string
  timestamp :: real

text \<open>
  A value of \<^verbatim>\<open>held_tokens\<close>. The key \<^verbatim>\<open>'max_price'\<close> is absent when the position
  is created and is added by the first exit evaluation that reaches the trailing stop.
\<close>

record position =
  buy_price :: real
  buy_amount :: real
  creator_wallets :: "string list"
  buy_timestamp :: real
  max_price :: "real option"

text \<open>The dictionary returned by \<^verbatim>\<open>_check_token_honeypot_and_taxes\<close>.\<close>

record honeypot_info =
  is_honeypot :: bool
  taxes :: "(string \<times> real) list"
  marketcap :: real
  antiBot :: bool

text \<open>
  The attributes of \<^verbatim>\<open>DecisionModule\<close>. \<^verbatim>\<open>successful_creator_cache\<close> is read and
  written by the module but never assigned by \<^verbatim>\<open>__init__\<close>: \<open>None\<close> is the missing
  attribute (every access raises \<^verbatim>\<open>AttributeError\<close>), \<open>Some c\<close> an attribute set from
  outside. \<open>real_trades\<close> is the content of \<^verbatim>\<open>real_trades.log\<close>.
\<close>

record decision_module =
  buy_amount_sol :: real
  sell_multiplier :: real
  trailing_stop_percent :: real
  simulation_mode :: bool
  simulation_results :: "trade_entry list"
  real_trades :: "trade_entry list"
  held_tokens :: "string \<rightharpoonup> position"
  capital :: real
  available_capital :: real
  honeypot_cache :: "string \<rightharpoonup> (real \<times> honeypot_info)"
  successful_creator_cache :: "string list option"
  saved_creator_cache :: "string list"

definition init_decision_module :: "real \<Rightarrow> real \<Rightarrow> real \<Rightarrow> bool \<Rightarrow> decision_module" where
  "init_decision_module buy sell trail sim =
     \<lparr> buy_amount_sol = buy, sell_multiplier = sell, trailing_stop_percent = trail,
       simulation_mode = sim, simulation_results = [], real_trades = [],
       held_tokens = Map.empty, capital = 0, available_capital = 0,
       honeypot_cache = Map.empty, successful_creator_cache = None,
       saved_creator_cache = [] \<rparr>"

definition record_simulation_trade :: "trade_entry \<Rightarrow> decision_module \<Rightarrow> decision_module" where
  "record_simulation_trade e s = s\<lparr>simulation_results := simulation_results s @ [e]\<rparr>"

definition record_real_trade :: "trade_entry \<Rightarrow> decision_module \<Rightarrow> decision_module" where
  "record_real_trade e s = s\<lparr>real_trades := real_trades s @ [e]\<rparr>"

definition set_initial_capital :: "real \<Rightarrow> decision_module \<Rightarrow> decision_module" where
  "set_initial_capital amount s = s\<lparr>capital := amount, available_capital := amount\<rparr>"

definition get_available_capital :: "decision_module \<Rightarrow> real" where
  "get_available_capital s = available_capital s"

text \<open>
  \<^verbatim>\<open>set_param(key, value)\<close>: \<^verbatim>\<open>hasattr\<close> then \<^verbatim>\<open>setattr\<close>, with no check of the
  value. The float attributes are modelled; a key that names another attribute of the object
  (a dictionary, a list, a method) would be overwritten by the value as well, which the typed
  record cannot hold: such keys are left out of the model and behave like unknown ones here.
\<close>

definition set_param :: "string \<Rightarrow> real \<Rightarrow> decision_module \<Rightarrow> decision_module" where
  "set_param key v s =
     (if key = ''buy_amount_sol'' then s\<lparr>buy_amount_sol := v\<rparr>
      else if key = ''sell_multiplier'' then s\<lparr>sell_multiplier := v\<rparr>
      else if key = ''trailing_stop_percent'' then s\<lparr>trailing_stop_percent := v\<rparr>
      else if key = ''capital'' then s\<lparr>capital := v\<rparr>
      else if key = ''available_capital'' then s\<lparr>available_capital := v\<rparr>
      else s)"

section \<open>Selling\<close>

text \<open>
  What \<^verbatim>\<open>order_executor.execute_sell\<close> returned: \<open>None\<close> is a falsy value, otherwise the
  dictionary with its \<^verbatim>\<open>success\<close> flag and its optional \<^verbatim>\<open>sell_price_sol\<close>.
\<close>

record sell_data =
  sell_success :: bool
  sell_price_sol :: "real option"

record sale_env =
  now :: real
  sell_reply :: "sell_data option"
  creator_sold :: "string \<Rightarrow> bool"

text \<open>
  \<^verbatim>\<open>_execute_sale\<close>: every exception is caught and gives \<^verbatim>\<open>None\<close>. In simulation the
  price written to the journal is \<^verbatim>\<open>buy_price * sell_multiplier\<close>.
\<close>

definition execute_sale :: "sale_env \<Rightarrow> string \<Rightarrow> decision_module \<Rightarrow> real option \<times> decision_module" where
  "execute_sale env tok s =
     (case held_tokens s tok of
        None \<Rightarrow> (None, s)
      | Some pos \<Rightarrow>
          if simulation_mode s then
            let current_price = buy_price pos * sell_multiplier s;
                s1 = record_simulation_trade
                       \<lparr>token = tok, price = current_price, action = ''sell'', timestamp = now env\<rparr> s
            in (Some current_price, s1\<lparr>held_tokens := (held_tokens s1)(tok := None)\<rparr>)
          else
            (case sell_reply env of
               None \<Rightarrow> (None, s)
             | Some d \<Rightarrow>
                 if sell_success d then
                   let sell_price = (case sell_price_sol d of None \<Rightarrow> buy_price pos | Some q \<Rightarrow> q);
                       s1 = record_real_trade
                              \<lparr>token = tok, price = sell_price, action = ''sell'', timestamp = now env\<rparr> s
                   in (Some sell_price, s1\<lparr>held_tokens := (held_tokens s1)(tok := None)\<rparr>)
                 else (None, s)))"

text \<open>
  \<^verbatim>\<open>_creator_wallet_selling\<close>: \<^verbatim>\<open>False\<close> for an empty list, otherwise whether some
  wallet's recent transactions mention the token (the RPC answer, per wallet).
\<close>

definition creator_wallet_selling :: "sale_env \<Rightarrow> string \<Rightarrow> string list \<Rightarrow> bool" where
  "creator_wallet_selling env tok wallets = (wallets \<noteq> [] \<and> list_ex (creator_sold env) wallets)"

text \<open>
  \<^verbatim>\<open>DecisionModule._save_creator_cache\<close> is called but defined nowhere under src/.
  Modelled from the spec: the cache is persisted as a whole.
\<close>

definition save_creator_cache :: "decision_module \<Rightarrow> decision_module" where
  "save_creator_cache s =
     (case successful_creator_cache s of None \<Rightarrow> s | Some c \<Rightarrow> s\<lparr>saved_creator_cache := c\<rparr>)"

text \<open>
  The loop over the creators of a sold position: a creator not yet in the cache is added and
  the cache saved. Reading a missing cache attribute raises.
\<close>

fun add_creators :: "string list \<Rightarrow> decision_module \<Rightarrow> py_error + decision_module" where
  "add_creators [] s = Inr s"
| "add_creators (c # cs) s =
     (case successful_creator_cache s of
        None \<Rightarrow> Inl AttributeError
      | Some cache \<Rightarrow>
          if c \<notin> set cache
          then add_creators cs (save_creator_cache (s\<lparr>successful_creator_cache := Some (cache @ [c])\<rparr>))
          else add_creators cs s)"

section \<open>Exit evaluation\<close>

datatype sale_reason = TakeProfit | TrailingStop | DumpSignal

text \<open>
  What one call of \<^verbatim>\<open>evaluate_held_tokens_for_sale\<close> did: the token was not held, an
  exception was caught before any sale, a sale was emitted (with the value
  \<^verbatim>\<open>_execute_sale\<close> returned), a sale was emitted and an exception caught afterwards, or
  no sale condition was met.
\<close>

datatype eval_outcome =
    NotHeld
  | Raised py_error
  | Emitted sale_reason "real option"
  | EmittedThenRaised sale_reason "real option" py_error
  | NoSale

fun emitted_reason :: "eval_outcome \<Rightarrow> sale_reason option" where
  "emitted_reason (Emitted r _) = Some r"
| "emitted_reason (EmittedThenRaised r _ _) = Some r"
| "emitted_reason _ = None"

definition evaluate_held_tokens_for_sale ::
  "sale_env \<Rightarrow> string \<Rightarrow> real \<Rightarrow> bool \<Rightarrow> decision_module \<Rightarrow> eval_outcome \<times> decision_module" where
  "evaluate_held_tokens_for_sale env tok current_price whale_selling s =
     (case held_tokens s tok of
        None \<Rightarrow> (NotHeld, s)
      | Some pos \<Rightarrow>
          if buy_price pos = 0 then (Raised ZeroDivisionError, s)
          else
            let profit_multiplier = current_price / buy_price pos in
            if profit_multiplier \<ge> sell_multiplier s then
              (case execute_sale env tok s of (r, s1) \<Rightarrow>
                 if simulation_mode s1 then
                   (case held_tokens s1 tok of
                      None \<Rightarrow> (EmittedThenRaised TakeProfit r KeyError, s1)
                    | Some pos1 \<Rightarrow>
                        if now env - buy_timestamp pos1 < 3600 then
                          (case add_creators (creator_wallets pos1) s1 of
                             Inl e \<Rightarrow> (EmittedThenRaised TakeProfit r e, s1)
                           | Inr s2 \<Rightarrow> (Emitted TakeProfit r, s2))
                        else (Emitted TakeProfit r, s1))
                 else (Emitted TakeProfit r, s1))
            else
              let m0 = (case max_price pos of None \<Rightarrow> buy_price pos | Some m \<Rightarrow> m);
                  m = (if current_price > m0 then current_price else m0);
                  s1 = s\<lparr>held_tokens := (held_tokens s)(tok \<mapsto> pos\<lparr>max_price := Some m\<rparr>)\<rparr>
              in
                if current_price < m * (1 - trailing_stop_percent s) then
                  (case execute_sale env tok s1 of (r, s2) \<Rightarrow> (Emitted TrailingStop r, s2))
                else if whale_selling \<or> creator_wallet_selling env tok (creator_wallets pos) then
                  (case execute_sale env tok s1 of (r, s2) \<Rightarrow> (Emitted DumpSignal r, s2))
                else (NoSale, s1))"

text \<open>A run of exit evaluations, one per observed price update.\<close>

record price_update =
  pu_env :: sale_env
  pu_token :: string
  pu_price :: real
  pu_whale :: bool

fun evaluate_all :: "price_update list \<Rightarrow> decision_module \<Rightarrow> decision_module" where
  "evaluate_all [] s = s"
| "evaluate_all (u # us) s =
     evaluate_all us (snd (evaluate_held_tokens_for_sale (pu_env u) (pu_token u) (pu_price u) (pu_whale u) s))"

text \<open>The running maximum the trailing stop compares with: the buy price until the key exists.\<close>

definition max_price_seen :: "position \<Rightarrow> real" where
  "max_price_seen pos = (case max_price pos of None \<Rightarrow> buy_price pos | Some m \<Rightarrow> m)"

section \<open>Safety checks before a buy\<close>

text \<open>
  The JSON object of the safety oracle, with the keys the code reads: two truthy flags for a
  honeypot, the optional tax table, the market cap under either spelling, two truthy flags
  for anti-bot.
\<close>

record oracle_data =
  honeypotResult :: bool
  isHoneypot :: bool
  data_taxes :: "(string \<times> real) list option"
  data_marketcap :: "real option"
  data_marketCap :: "real option"
  data_antiBot :: bool
  data_antiBotDetected :: bool

datatype oracle_body = Malformed | Body oracle_data

text \<open>The HTTP exchange: the request raised, or a status code with a body.\<close>

datatype oracle_response = Unreachable | Http nat oracle_body

definition default_honeypot_info :: honeypot_info where
  "default_honeypot_info = \<lparr>is_honeypot = False, taxes = [], marketcap = 0, antiBot = False\<rparr>"

definition honeypot_result :: "oracle_response \<Rightarrow> honeypot_info" where
  "honeypot_result resp =
     (case resp of
        Unreachable \<Rightarrow> default_honeypot_info
      | Http status body \<Rightarrow>
          if status = 200 then
            (case body of
               Malformed \<Rightarrow> default_honeypot_info
             | Body d \<Rightarrow>
                 \<lparr> is_honeypot = (honeypotResult d \<or> isHoneypot d),
                   taxes = (case data_taxes d of None \<Rightarrow> [] | Some t \<Rightarrow> t),
                   marketcap = (case data_marketcap d of
                                  Some m \<Rightarrow> m
                                | None \<Rightarrow> (case data_marketCap d of Some m \<Rightarrow> m | None \<Rightarrow> 0)),
                   antiBot = (data_antiBot d \<or> data_antiBotDetected d) \<rparr>)
          else default_honeypot_info)"

text \<open>
  \<^verbatim>\<open>_check_token_honeypot_and_taxes\<close>: a cache entry younger than 300 s is returned as it
  is; otherwise the oracle is asked, and the result, also the default one after an error, is
  cached.
\<close>

definition check_token_honeypot_and_taxes ::
  "real \<Rightarrow> oracle_response \<Rightarrow> string \<Rightarrow> decision_module \<Rightarrow> honeypot_info \<times> decision_module" where
  "check_token_honeypot_and_taxes t resp tok s =
     (let fresh = (let result = honeypot_result resp
                   in (result, s\<lparr>honeypot_cache := (honeypot_cache s)(tok \<mapsto> (t, result))\<rparr>))
      in case honeypot_cache s tok of
           None \<Rightarrow> fresh
         | Some (ts, cached) \<Rightarrow> if t - ts < 300 then (cached, s) else fresh)"

text \<open>
  The answer of the quote endpoint: the request or the JSON decoding raised, the body was
  \<^verbatim>\<open>null\<close>, or an object with its optional \<^verbatim>\<open>outAmount\<close> string.
\<close>

datatype quote_response = QuoteError | QuoteNull | QuoteData "string option"

text \<open>
  \<^verbatim>\<open>int(s)\<close> on a decimal string with an optional sign; any other string raises
  \<^verbatim>\<open>ValueError\<close> (the whitespace and underscore forms that Python also accepts are not
  modelled).
\<close>

definition digit_val :: "char \<Rightarrow> nat option" where
  "digit_val c = (let n = (of_char c :: nat) in if 48 \<le> n \<and> n \<le> 57 then Some (n - 48) else None)"

fun digits_val :: "string \<Rightarrow> nat \<Rightarrow> nat option" where
  "digits_val [] acc = Some acc"
| "digits_val (c # cs) acc =
     (case digit_val c of None \<Rightarrow> None | Some d \<Rightarrow> digits_val cs (acc * 10 + d))"

definition py_int :: "string \<Rightarrow> int option" where
  "py_int str =
     (case str of
        [] \<Rightarrow> None
      | c # cs \<Rightarrow>
          if c = CHR ''-'' then
            (if cs = [] then None else map_option (\<lambda>n. - int n) (digits_val cs 0))
          else if c = CHR ''+'' then
            (if cs = [] then None else map_option int (digits_val cs 0))
          else map_option int (digits_val (c # cs) 0))"

definition out_amount_of :: "string option \<Rightarrow> string" where
  "out_amount_of v = (case v of None \<Rightarrow> ''0'' | Some a \<Rightarrow> a)"

definition check_token_liquidity :: "quote_response \<Rightarrow> bool" where
  "check_token_liquidity q =
     (case q of
        QuoteError \<Rightarrow> False
      | QuoteNull \<Rightarrow> False
      | QuoteData v \<Rightarrow> (case py_int (out_amount_of v) of None \<Rightarrow> False | Some n \<Rightarrow> n > 0))"

definition check_token_sellable :: "quote_response \<Rightarrow> bool" where
  "check_token_sellable q =
     (case q of
        QuoteError \<Rightarrow> False
      | QuoteNull \<Rightarrow> False
      | QuoteData v \<Rightarrow> out_amount_of v \<noteq> ''0'')"

section \<open>Entry\<close>

record wallet_status =
  balance_ok :: bool
  balance_sol :: real

text \<open>
  What a call of \<^verbatim>\<open>process_new_token_candidate\<close> obtains from outside: the clock, the
  bot's start time (0 when unset), the detected creator wallets, the three probe answers, the
  wallet status and the value \<^verbatim>\<open>execute_buy\<close> returned (\<open>None\<close> a falsy value,
  \<open>Some b\<close> a dictionary whose \<^verbatim>\<open>success\<close> flag is \<open>b\<close>; the code tests the value itself).
\<close>

record buy_env =
  b_now :: real
  start_time :: real
  detected_creators :: "string list"
  oracle_reply :: oracle_response
  liquidity_quote :: quote_response
  sellable_quote :: quote_response
  wallet :: wallet_status
  buy_reply :: "bool option"

datatype candidate_outcome =
    SimulatedBuy
  | IgnoredUntrustedCreator
  | CandidateRaised py_error
  | TrustedBuy
  | TrustedBuyFailed
  | InsufficientBalance
  | InsufficientCapital
  | AlreadyHeld
  | HoneypotDetected
  | HighTaxes
  | MarketcapTooHigh
  | AntiBotDetected
  | LowLiquidity
  | NotSellable
  | BuyExecuted
  | BuyFailed

definition tax_get :: "string \<Rightarrow> (string \<times> real) list \<Rightarrow> real" where
  "tax_get k t = (case map_of t k of None \<Rightarrow> 0 | Some v \<Rightarrow> v)"

definition new_position :: "real \<Rightarrow> real \<Rightarrow> string list \<Rightarrow> real \<Rightarrow> position" where
  "new_position current_price amount creators t =
     \<lparr>buy_price = current_price, buy_amount = amount, creator_wallets = creators,
      buy_timestamp = t, max_price = None\<rparr>"

text \<open>The simulated buy: always admitted, journaled, and tracked with no creator wallets.\<close>

definition simulated_buy :: "buy_env \<Rightarrow> string \<Rightarrow> real \<Rightarrow> decision_module \<Rightarrow> decision_module" where
  "simulated_buy env tok current_price s =
     (let s1 = record_simulation_trade
                 \<lparr>token = tok, price = current_price, action = ''buy'', timestamp = b_now env\<rparr> s
      in s1\<lparr>held_tokens := (held_tokens s1)
               (tok \<mapsto> new_position current_price (buy_amount_sol s1) [] (b_now env))\<rparr>)"

text \<open>
  After the first hour (``Phase d'Exploitation''): only tokens of a creator in the cache are
  bought, and then with no other check.
\<close>

definition exploitation_buy ::
  "buy_env \<Rightarrow> string \<Rightarrow> real \<Rightarrow> decision_module \<Rightarrow> candidate_outcome \<times> decision_module" where
  "exploitation_buy env tok current_price s =
     (let creators = detected_creators env in
      if creators = [] then (IgnoredUntrustedCreator, s)
      else
        (case successful_creator_cache s of
           None \<Rightarrow> (CandidateRaised AttributeError, s)
         | Some cache \<Rightarrow>
             if \<not> list_ex (\<lambda>c. c \<in> set cache) creators then (IgnoredUntrustedCreator, s)
             else if buy_reply env \<noteq> None then
               (TrustedBuy,
                s\<lparr>held_tokens := (held_tokens s)
                     (tok \<mapsto> new_position current_price (buy_amount_sol s) creators (b_now env))\<rparr>)
             else (TrustedBuyFailed, s)))"

text \<open>
  The chain of checks of the first hour, in the order of the code: the first one that fails
  names the rejection; \<open>None\<close> when all pass.
\<close>

definition admission_reject ::
  "buy_env \<Rightarrow> string \<Rightarrow> honeypot_info \<Rightarrow> bool \<Rightarrow> bool \<Rightarrow> decision_module \<Rightarrow> candidate_outcome option" where
  "admission_reject env tok info has_liquidity is_sellable s =
     (let montant_total = buy_amount_sol s + 0.001 in
      if \<not> balance_ok (wallet env) \<or> balance_sol (wallet env) < montant_total
      then Some InsufficientBalance
      else if available_capital s < buy_amount_sol s then Some InsufficientCapital
      else if held_tokens s tok \<noteq> None then Some AlreadyHeld
      else if is_honeypot info then Some HoneypotDetected
      else if taxes info \<noteq> [] \<and>
              (tax_get ''buy'' (taxes info) > 0.15 \<or> tax_get ''sell'' (taxes info) > 0.15)
      then Some HighTaxes
      else if marketcap info \<noteq> 0 \<and> marketcap info > 50000 then Some MarketcapTooHigh
      else if antiBot info then Some AntiBotDetected
      else if \<not> has_liquidity then Some LowLiquidity
      else if \<not> is_sellable then Some NotSellable
      else None)"

text \<open>
  The first hour (``Exploration''): the three probes, the chain of checks, then the buy. The
  value of \<^verbatim>\<open>execute_buy\<close> is tested for truth only.
\<close>

definition exploration_buy ::
  "buy_env \<Rightarrow> string \<Rightarrow> real \<Rightarrow> decision_module \<Rightarrow> candidate_outcome \<times> decision_module" where
  "exploration_buy env tok current_price s =
     (case check_token_honeypot_and_taxes (b_now env) (oracle_reply env) tok s of
        (info, s1) \<Rightarrow>
          let has_liquidity = check_token_liquidity (liquidity_quote env);
              is_sellable = check_token_sellable (sellable_quote env)
          in case admission_reject env tok info has_liquidity is_sellable s1 of
               Some rejection \<Rightarrow> (rejection, s1)
             | None \<Rightarrow>
                 if buy_reply env \<noteq> None then
                   (BuyExecuted,
                    record_real_trade
                      \<lparr>token = tok, price = current_price, action = ''buy'', timestamp = b_now env\<rparr>
                      (s1\<lparr>held_tokens := (held_tokens s1)
                            (tok \<mapsto> new_position current_price (buy_amount_sol s1)
                                     (detected_creators env) (b_now env))\<rparr>))
                 else (BuyFailed, s1))"

definition process_new_token_candidate ::
  "buy_env \<Rightarrow> string \<Rightarrow> real \<Rightarrow> decision_module \<Rightarrow> candidate_outcome \<times> decision_module" where
  "process_new_token_candidate env tok current_price s =
     (let is_exploration_phase =
            (if start_time env \<noteq> 0 then b_now env - start_time env < 3600 else False)
      in
      if simulation_mode s then (SimulatedBuy, simulated_buy env tok current_price s)
      else if \<not> is_exploration_phase then exploitation_buy env tok current_price s
      else exploration_buy env tok current_price s)"

section \<open>The self-tuning controller\<close>

record snapshot =
  h_profit :: real
  h_buy_amount_sol :: real
  h_sell_multiplier :: real
  h_winrate :: real
  h_drawdown :: real
  h_volatility :: real
  h_timestamp :: real

text \<open>An entry of the decision journal written by \<^verbatim>\<open>_log_decision\<close> (the free-text reason is left out).\<close>

record decision =
  d_action :: string
  old_params :: "(string \<times> real) list"
  new_params :: "(string \<times> real) list"

record strategy_profile =
  p_name :: string
  buy_factor :: real
  sell_add :: real

definition strategy_profiles :: "strategy_profile list" where
  "strategy_profiles =
     [\<lparr>p_name = ''conservateur'', buy_factor = 0.8, sell_add = 0.1\<rparr>,
      \<lparr>p_name = ''agressif'', buy_factor = 1.2, sell_add = - 0.05\<rparr>,
      \<lparr>p_name = ''equilibre'', buy_factor = 1.0, sell_add = 0.0\<rparr>]"

text \<open>
  The attributes of \<^verbatim>\<open>AIAutoOptimizer\<close> that the tick reads or writes.
  \<open>best_profit = None\<close> is the initial \<^verbatim>\<open>float('-inf')\<close>; \<open>best_params\<close> is the pair
  (buy amount, sell multiplier). The hall of fame, the hooks and the LLM analysis do not touch
  the engine parameters and are left out.
\<close>

record optimizer =
  max_drawdown :: real
  last_profit :: real
  loss_streak :: nat
  win_streak :: nat
  best_params :: "(real \<times> real) option"
  best_profit :: "real option"
  freeze :: bool
  rollback_count :: nat
  param_history :: "snapshot list"
  current_profile :: nat
  sim_profit :: real
  winrate :: real
  avg_profit :: real
  volatility :: real
  drawdown :: real
  decision_log :: "decision list"

definition init_optimizer :: "(real \<times> real) option \<Rightarrow> real option \<Rightarrow> optimizer" where
  "init_optimizer loaded_params loaded_profit =
     \<lparr> max_drawdown = 0, last_profit = 0, loss_streak = 0, win_streak = 0,
       best_params = loaded_params, best_profit = loaded_profit, freeze = False,
       rollback_count = 0, param_history = [], current_profile = 2,
       sim_profit = 0, winrate = 0, avg_profit = 0, volatility = 0, drawdown = 0,
       decision_log = [] \<rparr>"

fun compute_profit_loop :: "trade_entry list \<Rightarrow> (string \<rightharpoonup> real) \<Rightarrow> real \<Rightarrow> real" where
  "compute_profit_loop [] buy_prices profit = profit"
| "compute_profit_loop (e # es) buy_prices profit =
     (if action e = ''buy'' then compute_profit_loop es (buy_prices(token e \<mapsto> price e)) profit
      else if action e = ''sell'' then
        (case buy_prices (token e) of
           Some b \<Rightarrow> compute_profit_loop es buy_prices (profit + (price e - b))
         | None \<Rightarrow> compute_profit_loop es buy_prices profit)
      else compute_profit_loop es buy_prices profit)"

definition compute_profit :: "trade_entry list \<Rightarrow> real" where
  "compute_profit trades = compute_profit_loop trades Map.empty 0"

fun compute_stats_loop ::
  "trade_entry list \<Rightarrow> (string \<rightharpoonup> real) \<Rightarrow> nat \<Rightarrow> nat \<Rightarrow> real list \<Rightarrow> nat \<times> nat \<times> real list" where
  "compute_stats_loop [] buy_prices wins losses profits = (wins, losses, profits)"
| "compute_stats_loop (e # es) buy_prices wins losses profits =
     (if action e = ''buy''
      then compute_stats_loop es (buy_prices(token e \<mapsto> price e)) wins losses profits
      else if action e = ''sell'' then
        (case buy_prices (token e) of
           Some b \<Rightarrow>
             let profit = price e - b in
             if profit > 0
             then compute_stats_loop es buy_prices (wins + 1) losses (profits @ [profit])
             else compute_stats_loop es buy_prices wins (losses + 1) (profits @ [profit])
         | None \<Rightarrow> compute_stats_loop es buy_prices wins losses profits)
      else compute_stats_loop es buy_prices wins losses profits)"

definition compute_stats :: "trade_entry list \<Rightarrow> real \<times> real \<times> real" where
  "compute_stats trades =
     (case compute_stats_loop trades Map.empty 0 0 [] of
        (wins, losses, profits) \<Rightarrow>
          let total = wins + losses;
              wr = (if total > 0 then real wins / real total else 0);
              avg = (if profits \<noteq> [] then sum_list profits / real (length profits) else 0);
              vol = (if profits \<noteq> []
                     then sqrt (sum_list (map (\<lambda>p. (p - avg) ^ 2) profits) / real (length profits))
                     else 0)
          in (wr, avg, vol))"

fun compute_drawdown_loop ::
  "trade_entry list \<Rightarrow> (string \<rightharpoonup> real) \<Rightarrow> real \<Rightarrow> real \<Rightarrow> real \<Rightarrow> real" where
  "compute_drawdown_loop [] buy_prices equity peak max_dd = max_dd"
| "compute_drawdown_loop (e # es) buy_prices equity peak max_dd =
     (if action e = ''buy''
      then compute_drawdown_loop es (buy_prices(token e \<mapsto> price e)) equity peak max_dd
      else if action e = ''sell'' then
        (case buy_prices (token e) of
           Some b \<Rightarrow>
             let equity1 = equity + (price e - b);
                 peak1 = max peak equity1;
                 dd = (if peak1 > 0 then (peak1 - equity1) / peak1 else 0)
             in compute_drawdown_loop es buy_prices equity1 peak1 (max max_dd dd)
         | None \<Rightarrow> compute_drawdown_loop es buy_prices equity peak max_dd)
      else compute_drawdown_loop es buy_prices equity peak max_dd)"

definition compute_drawdown :: "trade_entry list \<Rightarrow> real" where
  "compute_drawdown trades = compute_drawdown_loop trades Map.empty 0 0 0"

text \<open>Comparisons with \<^verbatim>\<open>best_profit\<close>, which starts at minus infinity.\<close>

definition above_best :: "real \<Rightarrow> real option \<Rightarrow> bool" where
  "above_best x best = (case best of None \<Rightarrow> True | Some b \<Rightarrow> x > b)"

definition below_best_times :: "real \<Rightarrow> real option \<Rightarrow> real \<Rightarrow> bool" where
  "below_best_times x best c = (case best of None \<Rightarrow> False | Some b \<Rightarrow> x < b * c)"

definition log_decision ::
  "string \<Rightarrow> (string \<times> real) list \<Rightarrow> (string \<times> real) list \<Rightarrow> optimizer \<Rightarrow> optimizer" where
  "log_decision act old new opt =
     opt\<lparr>decision_log := decision_log opt @ [\<lparr>d_action = act, old_params = old, new_params = new\<rparr>]\<rparr>"

definition both_params :: "decision_module \<Rightarrow> (string \<times> real) list" where
  "both_params d = [(''buy_amount_sol'', buy_amount_sol d), (''sell_multiplier'', sell_multiplier d)]"

definition buy_param :: "decision_module \<Rightarrow> (string \<times> real) list" where
  "buy_param d = [(''buy_amount_sol'', buy_amount_sol d)]"

text \<open>The random draws of one tick: the two \<^verbatim>\<open>random.random()\<close> and the \<^verbatim>\<open>random.uniform(0.95, 1.05)\<close>.\<close>

record rng =
  r_profile :: real
  r_mutate :: real
  u_mutate :: real

text \<open>Rotation to the next strategy profile (``Exploration multi-profils'').\<close>

definition switch_profile :: "optimizer \<times> decision_module \<Rightarrow> optimizer \<times> decision_module" where
  "switch_profile c =
     (case c of (opt, d) \<Rightarrow>
        let new_profile = (current_profile opt + 1) mod length strategy_profiles;
            prof = strategy_profiles ! new_profile;
            new_buy_amount = max 0.01 (buy_amount_sol d * buy_factor prof);
            new_sell_multiplier = min 2.5 (max 1.0 (sell_multiplier d + sell_add prof));
            d1 = d\<lparr>buy_amount_sol := new_buy_amount, sell_multiplier := new_sell_multiplier\<rparr>
        in (log_decision ''switch_profile'' (both_params d) (both_params d1)
              (opt\<lparr>current_profile := new_profile\<rparr>), d1))"

text \<open>The \<^verbatim>\<open>if / elif / elif\<close> chain (``Ajustement dynamique classique'').\<close>

definition dynamic_adjust :: "optimizer \<times> decision_module \<Rightarrow> optimizer \<times> decision_module" where
  "dynamic_adjust c =
     (case c of (opt, d) \<Rightarrow>
        if drawdown opt > 0.2 then
          let d1 = d\<lparr>buy_amount_sol := max 0.01 (buy_amount_sol d * 0.8),
                     sell_multiplier := min 2.5 (sell_multiplier d + 0.1)\<rparr>
          in (log_decision ''reduce_risk'' (both_params d) (both_params d1) opt, d1)
        else if winrate opt < 0.4 then
          let d1 = d\<lparr>buy_amount_sol := max 0.01 (buy_amount_sol d * 0.9)\<rparr>
          in (log_decision ''adjust_buy_amount'' (buy_param d) (buy_param d1) opt, d1)
        else if winrate opt > 0.7 \<and> avg_profit opt > 0 then
          let d1 = d\<lparr>buy_amount_sol := min 2.0 (buy_amount_sol d * 1.1)\<rparr>
          in (log_decision ''increase_risk'' (buy_param d) (buy_param d1) opt, d1)
        else (opt, d))"

text \<open>The random mutation (``Auto-tuning''), with the drawn factor \<open>u\<close>.\<close>

definition auto_tune :: "real \<Rightarrow> optimizer \<times> decision_module \<Rightarrow> optimizer \<times> decision_module" where
  "auto_tune u c =
     (case c of (opt, d) \<Rightarrow>
        let old_buy = buy_amount_sol d;
            new_buy = max 0.01 (old_buy * u);
            d1 = d\<lparr>buy_amount_sol := new_buy\<rparr>
        in (log_decision ''auto_tune'' [(''buy_amount_sol'', old_buy)] [(''buy_amount_sol'', new_buy)] opt, d1))"

text \<open>The block under \<^verbatim>\<open>if not self.freeze:\<close>.\<close>

definition mutate :: "rng \<Rightarrow> optimizer \<times> decision_module \<Rightarrow> optimizer \<times> decision_module" where
  "mutate g c =
     (if \<not> freeze (fst c) then
        let c1 = (if r_profile g < 0.15 then switch_profile c else c);
            c2 = dynamic_adjust c1;
            c3 = (if r_mutate g < 0.1 then auto_tune (u_mutate g) c2 else c2)
        in c3
      else c)"

text \<open>The first block of \<^verbatim>\<open>_check_and_apply_rollback\<close>: the memorised best parameters are restored as they are.\<close>

definition rollback_to_best :: "optimizer \<times> decision_module \<Rightarrow> optimizer \<times> decision_module" where
  "rollback_to_best c =
     (case c of (opt, d) \<Rightarrow>
        (case best_params opt of
           Some (bb, bs) \<Rightarrow>
             if below_best_times (sim_profit opt) (best_profit opt) 0.5 \<and> \<not> freeze opt then
               let d1 = d\<lparr>buy_amount_sol := bb, sell_multiplier := bs\<rparr>
               in (log_decision ''rollback_to_best'' (both_params d) (both_params d1)
                     (opt\<lparr>rollback_count := rollback_count opt + 1\<rparr>), d1)
             else (opt, d)
         | None \<Rightarrow> (opt, d)))"

text \<open>The second block: the streak counters.\<close>

definition update_streaks :: "optimizer \<Rightarrow> optimizer" where
  "update_streaks opt =
     (if sim_profit opt < last_profit opt
      then opt\<lparr>loss_streak := loss_streak opt + 1, win_streak := 0\<rparr>
      else if sim_profit opt > last_profit opt
      then opt\<lparr>win_streak := win_streak opt + 1, loss_streak := 0\<rparr>
      else opt)"

text \<open>The third block: the recovery after three losses in a row.\<close>

definition recovery_mode :: "optimizer \<times> decision_module \<Rightarrow> optimizer \<times> decision_module" where
  "recovery_mode c =
     (case c of (opt, d) \<Rightarrow>
        if loss_streak opt \<ge> 3 \<and> \<not> freeze opt then
          let d2 = d\<lparr>buy_amount_sol := max 0.01 (buy_amount_sol d * 0.7),
                     sell_multiplier := min 2.5 (sell_multiplier d + 0.2)\<rparr>
          in (log_decision ''recovery_mode'' (both_params d) (both_params d2) opt, d2)
        else (opt, d))"

definition check_and_apply_rollback :: "optimizer \<times> decision_module \<Rightarrow> optimizer \<times> decision_module" where
  "check_and_apply_rollback c =
     (let c1 = rollback_to_best c;
          c2 = (update_streaks (fst c1), snd c1);
          c3 = recovery_mode c2
      in ((fst c3)\<lparr>last_profit := sim_profit (fst c3)\<rparr>, snd c3))"

text \<open>The statistics, the memory of the best parameters, the history and the freeze switch.\<close>

definition observe :: "real \<Rightarrow> trade_entry list \<Rightarrow> optimizer \<times> decision_module \<Rightarrow> optimizer \<times> decision_module" where
  "observe t sim_trades c =
     (case c of (opt, d) \<Rightarrow>
        (case compute_stats sim_trades of (wr, avg, vol) \<Rightarrow>
           let dd = compute_drawdown sim_trades;
               o1 = opt\<lparr>sim_profit := compute_profit sim_trades, winrate := wr, avg_profit := avg,
                        volatility := vol, drawdown := dd, max_drawdown := max (max_drawdown opt) dd\<rparr>;
               o2 = (if above_best (sim_profit o1) (best_profit o1)
                     then o1\<lparr>best_profit := Some (sim_profit o1),
                             best_params := Some (buy_amount_sol d, sell_multiplier d)\<rparr>
                     else o1);
               o3 = o2\<lparr>param_history := param_history o2 @
                          [\<lparr>h_profit = sim_profit o2, h_buy_amount_sol = buy_amount_sol d,
                            h_sell_multiplier = sell_multiplier d, h_winrate = winrate o2,
                            h_drawdown = drawdown o2, h_volatility = volatility o2,
                            h_timestamp = t\<rparr>]\<rparr>;
               o4 = (if \<not> freeze o3 \<and> winrate o3 > 0.7 \<and> drawdown o3 < 0.1 \<and> sim_profit o3 > 0.5
                     then o3\<lparr>freeze := True\<rparr> else o3);
               o5 = (if freeze o4 \<and> (winrate o4 < 0.6 \<or> drawdown o4 > 0.15 \<or>
                                      below_best_times (sim_profit o4) (best_profit o4) 0.8)
                     then o4\<lparr>freeze := False\<rparr> else o4)
           in (o5, d)))"

text \<open>\<^verbatim>\<open>analyze_and_adjust\<close>: one tick of the controller.\<close>

definition analyze_and_adjust ::
  "real \<Rightarrow> rng \<Rightarrow> trade_entry list \<Rightarrow> optimizer \<times> decision_module \<Rightarrow> optimizer \<times> decision_module" where
  "analyze_and_adjust t g sim_trades c = check_and_apply_rollback (mutate g (observe t sim_trades c))"

text \<open>The actions that the block under \<^verbatim>\<open>if not self.freeze:\<close> wrote to the decision journal.\<close>

definition mutate_actions :: "rng \<Rightarrow> optimizer \<times> decision_module \<Rightarrow> string list" where
  "mutate_actions g c =
     map d_action (drop (length (decision_log (fst c))) (decision_log (fst (mutate g c))))"

section \<open>Pair discovery\<close>

definition RAYDIUM_LP_V4 :: string where
  "RAYDIUM_LP_V4 = ''675kPX9MHTjS2zt1qfr1NYHuzeLXfQM9H24wFSUt1Mp8''"

definition SOL_MINT :: string where
  "SOL_MINT = ''So11111111111111111111111111111111111111112''"

text \<open>Python's \<^verbatim>\<open>sub in s\<close> on strings.\<close>

fun str_contains :: "string \<Rightarrow> string \<Rightarrow> bool" where
  "str_contains sub [] = (sub = [])"
| "str_contains sub (c # cs) = (prefix sub (c # cs) \<or> str_contains sub cs)"

text \<open>
  \<^verbatim>\<open>str.splitlines()\<close> for the ASCII line boundaries (LF, CR, CR LF, VT, FF, FS, GS, RS);
  the boundaries beyond ASCII are not modelled.
\<close>

definition is_linebreak :: "char \<Rightarrow> bool" where
  "is_linebreak c = ((of_char c :: nat) \<in> set [10, 11, 12, 13, 28, 29, 30])"

fun splitlines_from :: "string \<Rightarrow> string \<Rightarrow> string list" where
  "splitlines_from cur [] = (if cur = [] then [] else [rev cur])"
| "splitlines_from cur [c] = (if is_linebreak c then [rev cur] else [rev (c # cur)])"
| "splitlines_from cur (c # d # cs) =
     (if (of_char c :: nat) = 13 \<and> (of_char d :: nat) = 10 then rev cur # splitlines_from [] cs
      else if is_linebreak c then rev cur # splitlines_from [] (d # cs)
      else splitlines_from (c # cur) (d # cs))"

definition splitlines :: "string \<Rightarrow> string list" where
  "splitlines str = splitlines_from [] str"

text \<open>
  The part of a \<^verbatim>\<open>logsNotification\<close> message that \<^verbatim>\<open>_listen\<close> reads: the method, and the
  \<^verbatim>\<open>value\<close> object with its signature (\<open>None\<close> when the key is absent or null) and its logs,
  which are a list of lines, one string, or something else.
\<close>

datatype raw_logs = LogsList "string list" | LogsStr string | LogsOther

record log_value =
  v_signature :: "string option"
  v_logs :: raw_logs

datatype notif_value = NotDict | Dict log_value

record notification =
  n_method :: "string option"
  n_value :: notif_value

definition logs_of :: "raw_logs \<Rightarrow> string list" where
  "logs_of r = (case r of LogsList ls \<Rightarrow> ls | LogsStr str \<Rightarrow> splitlines str | LogsOther \<Rightarrow> [])"

text \<open>The body of the message loop: the signature handed to \<^verbatim>\<open>process_new_pool\<close>, if any.\<close>

definition handle_notification :: "notification \<Rightarrow> string option" where
  "handle_notification n =
     (case n_value n of
        NotDict \<Rightarrow> None
      | Dict v \<Rightarrow>
          if n_method n \<noteq> Some ''logsNotification'' then None
          else if list_ex (str_contains ''Instruction: InitializeAccount'') (logs_of (v_logs v)) then
            (case v_signature v of
               None \<Rightarrow> None
             | Some sg \<Rightarrow> if sg \<noteq> [] then Some sg else None)
          else None)"

text \<open>
  \<^verbatim>\<open>base58.b58decode\<close>: trailing whitespace is stripped, every leading \<^verbatim>\<open>1\<close> is a zero
  byte, the rest is a base-58 number written big-endian; a character outside the alphabet
  raises \<^verbatim>\<open>ValueError\<close>. Bytes are numbers below 256.
\<close>

definition b58_alphabet :: string where
  "b58_alphabet = ''123456789ABCDEFGHJKLMNPQRSTUVWXYZabcdefghijkmnopqrstuvwxyz''"

fun index_of :: "char \<Rightarrow> string \<Rightarrow> nat option" where
  "index_of c [] = None"
| "index_of c (a # as) = (if c = a then Some 0 else map_option Suc (index_of c as))"

fun b58decode_int :: "string \<Rightarrow> nat \<Rightarrow> nat option" where
  "b58decode_int [] acc = Some acc"
| "b58decode_int (c # cs) acc =
     (case index_of c b58_alphabet of
        None \<Rightarrow> None
      | Some i \<Rightarrow> b58decode_int cs (acc * 58 + i))"

function bytes_le :: "nat \<Rightarrow> nat list" where
  "bytes_le n = (if n = 0 then [] else (n mod 256) # bytes_le (n div 256))"
  by pat_completeness auto
termination
  by (relation "measure id") auto

definition is_space :: "char \<Rightarrow> bool" where
  "is_space c = ((of_char c :: nat) \<in> set [9, 10, 11, 12, 13, 28, 29, 30, 31, 32])"

definition rstrip :: "string \<Rightarrow> string" where
  "rstrip v = rev (dropWhile is_space (rev v))"

definition b58decode :: "string \<Rightarrow> py_error + nat list" where
  "b58decode v =
     (let v1 = rstrip v;
          origlen = length v1;
          v2 = dropWhile (\<lambda>c. c = CHR ''1'') v1;
          newlen = length v2
      in case b58decode_int v2 0 of
           None \<Rightarrow> Inl ValueError
         | Some acc \<Rightarrow> Inr (replicate (origlen - newlen) 0 @ rev (bytes_le acc)))"

definition initialize2_discriminant :: "nat list" where
  "initialize2_discriminant = [216, 28, 142, 35, 132, 150, 233, 155]"

text \<open>
  A top-level instruction of a transaction fetched with \<^verbatim>\<open>jsonParsed\<close>: a fully parsed one
  has no \<^verbatim>\<open>data\<close> attribute; a partially decoded one has its program id, its base-58 data
  and its accounts.
\<close>

datatype instruction =
    ParsedInstruction string
  | PartiallyDecoded string string "string list"

record transaction =
  account_keys :: "string list"
  instructions :: "instruction list"

text \<open>
  The fetch: the signature string did not parse, the RPC client raised its own exception,
  something else was raised, no transaction came back, or the transaction.
\<close>

datatype fetch_result = SignatureInvalid | RpcException | FetchRaised | NoTransaction | Tx transaction

datatype pool_outcome =
    SkippedInvalidSignature
  | SkippedRateLimited
  | SkippedNoTransaction
  | SkippedNotRaydium
  | SkippedNonSolPair
  | PoolRaised py_error
  | NothingFound
  | Forwarded string real

text \<open>The loop over the instructions; the first match decides.\<close>

fun scan_instructions :: "instruction list \<Rightarrow> pool_outcome" where
  "scan_instructions [] = NothingFound"
| "scan_instructions (ParsedInstruction pid # ixs) = PoolRaised AttributeError"
| "scan_instructions (PartiallyDecoded pid ix_data accounts # ixs) =
     (case b58decode ix_data of
        Inl e \<Rightarrow> PoolRaised e
      | Inr ix_data_bytes \<Rightarrow>
          if pid = RAYDIUM_LP_V4 \<and> prefix initialize2_discriminant ix_data_bytes then
            (if length accounts \<le> 9 then PoolRaised IndexError
             else
               let token0_mint = accounts ! 8;
                   token1_mint = accounts ! 9
               in if token0_mint = SOL_MINT then Forwarded token1_mint 0
                  else if token1_mint = SOL_MINT then Forwarded token0_mint 0
                  else SkippedNonSolPair)
          else scan_instructions ixs)"

text \<open>
  \<^verbatim>\<open>process_new_pool\<close>: \<open>Forwarded m p\<close> is the call
  \<^verbatim>\<open>process_new_token_candidate(m, current_price=p)\<close>.
\<close>

definition process_new_pool :: "fetch_result \<Rightarrow> pool_outcome" where
  "process_new_pool f =
     (case f of
        SignatureInvalid \<Rightarrow> SkippedInvalidSignature
      | RpcException \<Rightarrow> SkippedRateLimited
      | FetchRaised \<Rightarrow> PoolRaised OtherError
      | NoTransaction \<Rightarrow> SkippedNoTransaction
      | Tx tx \<Rightarrow>
          if \<not> list_ex (\<lambda>acc. acc = RAYDIUM_LP_V4) (account_keys tx) then SkippedNotRaydium
          else scan_instructions (instructions tx))"

text \<open>The scanner's hand-over to the decision module.\<close>

definition scanner_dispatch :: "fetch_result \<Rightarrow> buy_env \<Rightarrow> decision_module \<Rightarrow> decision_module" where
  "scanner_dispatch f env s =
     (case process_new_pool f of
        Forwarded m p \<Rightarrow> snd (process_new_token_candidate env m p s)
      | _ \<Rightarrow> s)"

section \<open>Runs of the engine\<close>

text \<open>
  What reaches the decision module from outside: a configured capital, a parameter write
  (of a float attribute or of an unknown name, see \<open>set_param\<close>), a candidate token, an
  observed price.
\<close>

datatype event =
    SetCapital real
  | SetParam string real
  | Candidate buy_env string real
  | PriceUpdate price_update

fun step :: "event \<Rightarrow> decision_module \<Rightarrow> decision_module" where
  "step (SetCapital a) s = set_initial_capital a s"
| "step (SetParam k v) s = set_param k v s"
| "step (Candidate env tok p) s = snd (process_new_token_candidate env tok p s)"
| "step (PriceUpdate u) s =
     snd (evaluate_held_tokens_for_sale (pu_env u) (pu_token u) (pu_price u) (pu_whale u) s)"

fun run :: "event list \<Rightarrow> decision_module \<Rightarrow> decision_module" where
  "run [] s = s"
| "run (e # es) s = run es (step e s)"

section \<open>Notions used in the statements\<close>

text \<open>The position after the trailing-stop block has raised the running maximum to a price.\<close>

definition raise_max :: "position \<Rightarrow> real \<Rightarrow> position" where
  "raise_max pos p = pos\<lparr>max_price := Some (if p > max_price_seen pos then p else max_price_seen pos)\<rparr>"

text \<open>An event that configures the available capital does so with a non-negative amount.\<close>

fun configures_nonneg :: "event \<Rightarrow> bool" where
  "configures_nonneg (SetCapital a) = (0 \<le> a)"
| "configures_nonneg (SetParam k v) = (k = ''available_capital'' \<longrightarrow> 0 \<le> v)"
| "configures_nonneg _ = True"

text \<open>Every held position has a running maximum that is at least its buy price.\<close>

definition positions_ok :: "decision_module \<Rightarrow> bool" where
  "positions_ok s = (\<forall>k pos. held_tokens s k = Some pos \<longrightarrow> buy_price pos \<le> max_price_seen pos)"

text \<open>The oracle sub-check errors: the request raised, the status is not 200, or the body is malformed.\<close>

definition oracle_failed :: "oracle_response \<Rightarrow> bool" where
  "oracle_failed resp =
     (case resp of Unreachable \<Rightarrow> True | Http status body \<Rightarrow> status \<noteq> 200 \<or> body = Malformed)"

text \<open>
  The bounds on the engine parameters: the buy amount at least 0.01 and, when \<open>strict\<close>, at
  most 2.0; the sell multiplier between 1.0 and 2.5.
\<close>

definition buy_sell_ok :: "bool \<Rightarrow> real \<Rightarrow> real \<Rightarrow> bool" where
  "buy_sell_ok strict b sl = (0.01 \<le> b \<and> (strict \<longrightarrow> b \<le> 2.0) \<and> 1.0 \<le> sl \<and> sl \<le> 2.5)"

definition params_in_range :: "decision_module \<Rightarrow> bool" where
  "params_in_range d = buy_sell_ok True (buy_amount_sol d) (sell_multiplier d)"

text \<open>The action that the \<^verbatim>\<open>if / elif / elif\<close> chain of a tick journals, if any.\<close>

definition dynamic_action :: "optimizer \<Rightarrow> string list" where
  "dynamic_action opt =
     (if drawdown opt > 0.2 then [''reduce_risk'']
      else if winrate opt < 0.4 then [''adjust_buy_amount'']
      else if winrate opt > 0.7 \<and> avg_profit opt > 0 then [''increase_risk'']
      else [])"

section \<open>Concrete inputs\<close>

definition ex_token :: string where
  "ex_token = ''TokenX''"

definition ex_sale_env :: sale_env where
  "ex_sale_env = \<lparr>now = 100, sell_reply = Some \<lparr>sell_success = True, sell_price_sol = Some 3\<rparr>,
                   creator_sold = (\<lambda>w. False)\<rparr>"

text \<open>A position bought at 1.0 whose running maximum has reached 1.8.\<close>

definition ex_position :: position where
  "ex_position = \<lparr>buy_price = 1, buy_amount = 1/10, creator_wallets = [''CreatorW''],
                   buy_timestamp = 0, max_price = Some (18/10)\<rparr>"

text \<open>
  An engine with buy amount 0.1, sell multiplier 2.0 and trailing stop 0.15 that holds
  \<open>ex_position\<close> and whose creator cache exists and is empty.
\<close>

definition ex_state :: "bool \<Rightarrow> decision_module" where
  "ex_state sim = (init_decision_module (1/10) 2 (15/100) sim)
                    \<lparr>held_tokens := [ex_token \<mapsto> ex_position],
                     successful_creator_cache := Some []\<rparr>"

text \<open>An engine in real mode with a configured capital of 1.0 and nothing held.\<close>

definition ex_real_state :: decision_module where
  "ex_real_state = set_initial_capital 1 (init_decision_module (1/10) 2 (15/100) False)"

definition ex_clean_oracle :: oracle_data where
  "ex_clean_oracle = \<lparr>honeypotResult = False, isHoneypot = False, data_taxes = None,
      data_marketcap = None, data_marketCap = None, data_antiBot = False,
      data_antiBotDetected = False\<rparr>"

text \<open>
  A candidate seen 50 s after the start, with a funded wallet, both quotes answering
  \<^verbatim>\<open>outAmount = "1000"\<close> and a buy that goes through; the oracle's answer is the argument.
\<close>

definition ex_buy_env :: "oracle_response \<Rightarrow> buy_env" where
  "ex_buy_env resp = \<lparr>b_now = 100, start_time = 50, detected_creators = [''CreatorW''],
      oracle_reply = resp, liquidity_quote = QuoteData (Some ''1000''),
      sellable_quote = QuoteData (Some ''1000''),
      wallet = \<lparr>balance_ok = True, balance_sol = 5\<rparr>, buy_reply = Some True\<rparr>"

text \<open>
  A transaction that creates a pool: one instruction of the pool program whose data decodes
  to the discriminant followed by one byte, with the base mint at offset 8 and the new mint at
  offset 9.
\<close>

definition ex_pool_tx :: transaction where
  "ex_pool_tx = \<lparr>account_keys = [''PayerWallet'', RAYDIUM_LP_V4],
     instructions = [PartiallyDecoded RAYDIUM_LP_V4 ''3kYkVJu9q4tkV''
        [''a0'', ''a1'', ''a2'', ''a3'', ''a4'', ''a5'', ''a6'', ''a7'', SOL_MINT, ''NewMint'', ''a10'']]\<rparr>"

text \<open>The same transaction with the base mint at both offsets.\<close>

definition ex_sol_pair_tx :: transaction where
  "ex_sol_pair_tx = \<lparr>account_keys = [''PayerWallet'', RAYDIUM_LP_V4],
     instructions = [PartiallyDecoded RAYDIUM_LP_V4 ''3kYkVJu9q4tkV''
        [''a0'', ''a1'', ''a2'', ''a3'', ''a4'', ''a5'', ''a6'', ''a7'', SOL_MINT, SOL_MINT, ''a10'']]\<rparr>"

text \<open>Two observed prices, 1.9 then 1.7, with no dump signal.\<close>

definition ex_updates :: "price_update list" where
  "ex_updates = [\<lparr>pu_env = ex_sale_env, pu_token = ex_token, pu_price = 19/10, pu_whale = False\<rparr>,
                 \<lparr>pu_env = ex_sale_env, pu_token = ex_token, pu_price = 17/10, pu_whale = False\<rparr>]"

text \<open>A log notification with a signature and the given log lines.\<close>

definition ex_notification :: "string list \<Rightarrow> notification" where
  "ex_notification ls = \<lparr>n_method = Some ''logsNotification'',
      n_value = Dict \<lparr>v_signature = Some ''5sigABC'', v_logs = LogsList ls\<rparr>\<rparr>"

text \<open>
  A simulation journal with a win of 1.0 followed by a loss of 0.5 (drawdown 0.5, win rate
  0.5); random draws that rotate the profile and skip the random mutation; a fresh controller
  on the simulated engine.
\<close>

definition ex_trades :: "trade_entry list" where
  "ex_trades = [\<lparr>token = ''A'', price = 1, action = ''buy'', timestamp = 1\<rparr>,
                \<lparr>token = ''A'', price = 2, action = ''sell'', timestamp = 2\<rparr>,
                \<lparr>token = ''B'', price = 1, action = ''buy'', timestamp = 3\<rparr>,
                \<lparr>token = ''B'', price = 1/2, action = ''sell'', timestamp = 4\<rparr>]"

definition ex_rng :: rng where
  "ex_rng = \<lparr>r_profile = 1/10, r_mutate = 1/2, u_mutate = 1\<rparr>"

definition ex_controller :: "optimizer \<times> decision_module" where
  "ex_controller = (init_optimizer None None, ex_state True)"

text \<open>A controller after three losses in a row.\<close>

definition ex_losing_controller :: "optimizer \<times> decision_module" where
  "ex_losing_controller = ((init_optimizer None None)\<lparr>loss_streak := 3\<rparr>, ex_state True)"

text \<open>
  A controller that has loaded best parameters of 5.0 and 9.0 with a best profit of 1.0 from
  its file, on an engine whose simulated profit is 0.
\<close>

definition ex_rollback_controller :: "optimizer \<times> decision_module" where
  "ex_rollback_controller = (init_optimizer (Some (5, 9)) (Some 1), ex_state True)"

section \<open>Shared lemmas\<close>

subsection \<open>Selling\<close>

lemma execute_sale_result:
  "execute_sale env tok s = (r, s1) \<Longrightarrow>
     (r = None \<and> s1 = s) \<or>
     (\<exists>pos. held_tokens s tok = Some pos \<and> r \<noteq> None \<and>
        held_tokens s1 = (held_tokens s)(tok := None) \<and>
        (simulation_mode s \<longrightarrow> r = Some (buy_price pos * sell_multiplier s) \<and>
           real_trades s1 = real_trades s \<and>
           simulation_results s1 = simulation_results s @
             [\<lparr>token = tok, price = buy_price pos * sell_multiplier s, action = ''sell'',
               timestamp = now env\<rparr>]))"
  by (auto simp: execute_sale_def Let_def record_simulation_trade_def record_real_trade_def
      split: option.splits if_splits)

lemma execute_sale_frame:
  "execute_sale env tok s = (r, s1) \<Longrightarrow>
     available_capital s1 = available_capital s \<and> capital s1 = capital s \<and>
     successful_creator_cache s1 = successful_creator_cache s \<and>
     saved_creator_cache s1 = saved_creator_cache s \<and>
     simulation_mode s1 = simulation_mode s \<and>
     buy_amount_sol s1 = buy_amount_sol s \<and> sell_multiplier s1 = sell_multiplier s \<and>
     trailing_stop_percent s1 = trailing_stop_percent s"
  by (auto simp: execute_sale_def Let_def record_simulation_trade_def record_real_trade_def
      split: option.splits if_splits)

lemma execute_sale_sim:
  "simulation_mode s \<Longrightarrow> held_tokens s tok = Some pos \<Longrightarrow>
   execute_sale env tok s =
     (Some (buy_price pos * sell_multiplier s),
      s\<lparr>simulation_results := simulation_results s @
           [\<lparr>token = tok, price = buy_price pos * sell_multiplier s, action = ''sell'',
             timestamp = now env\<rparr>],
         held_tokens := (held_tokens s)(tok := None)\<rparr>)"
  by (simp add: execute_sale_def Let_def record_simulation_trade_def)

lemma execute_sale_held:
  "held_tokens (snd (execute_sale env tok s)) k = Some pos' \<Longrightarrow> held_tokens s k = Some pos'"
  using execute_sale_result[of env tok s "fst (execute_sale env tok s)" "snd (execute_sale env tok s)"]
  by (auto split: if_splits)

subsection \<open>The branches of the exit evaluation\<close>

lemma evaluate_not_held:
  "held_tokens s tok = None \<Longrightarrow> evaluate_held_tokens_for_sale env tok p w s = (NotHeld, s)"
  by (simp add: evaluate_held_tokens_for_sale_def)

lemma evaluate_zero_buy_price:
  "held_tokens s tok = Some pos \<Longrightarrow> buy_price pos = 0 \<Longrightarrow>
   evaluate_held_tokens_for_sale env tok p w s = (Raised ZeroDivisionError, s)"
  by (simp add: evaluate_held_tokens_for_sale_def)

lemma evaluate_take_profit_sim:
  assumes "simulation_mode s" "held_tokens s tok = Some pos" "buy_price pos \<noteq> 0"
    "sell_multiplier s \<le> p / buy_price pos"
  shows "evaluate_held_tokens_for_sale env tok p w s =
           (EmittedThenRaised TakeProfit (Some (buy_price pos * sell_multiplier s)) KeyError,
            snd (execute_sale env tok s))"
  using assms by (simp add: evaluate_held_tokens_for_sale_def execute_sale_sim)

lemma evaluate_take_profit_real:
  assumes "\<not> simulation_mode s" "held_tokens s tok = Some pos" "buy_price pos \<noteq> 0"
    "sell_multiplier s \<le> p / buy_price pos"
  shows "evaluate_held_tokens_for_sale env tok p w s =
           (Emitted TakeProfit (fst (execute_sale env tok s)), snd (execute_sale env tok s))"
proof -
  obtain r s1 where e: "execute_sale env tok s = (r, s1)" by (cases "execute_sale env tok s")
  from execute_sale_frame[OF e] assms(1) have "\<not> simulation_mode s1" by simp
  with assms e show ?thesis by (simp add: evaluate_held_tokens_for_sale_def)
qed

lemma evaluate_below_take_profit:
  assumes "held_tokens s tok = Some pos" "buy_price pos \<noteq> 0"
    "\<not> sell_multiplier s \<le> p / buy_price pos"
  shows "evaluate_held_tokens_for_sale env tok p w s =
     (let s1 = s\<lparr>held_tokens := (held_tokens s)(tok \<mapsto> raise_max pos p)\<rparr> in
        if p < max_price_seen (raise_max pos p) * (1 - trailing_stop_percent s)
        then (Emitted TrailingStop (fst (execute_sale env tok s1)), snd (execute_sale env tok s1))
        else if w \<or> creator_wallet_selling env tok (creator_wallets pos)
        then (Emitted DumpSignal (fst (execute_sale env tok s1)), snd (execute_sale env tok s1))
        else (NoSale, s1))"
  using assms
  by (simp add: evaluate_held_tokens_for_sale_def Let_def raise_max_def max_price_seen_def
      split: prod.splits option.splits)

lemma raise_max_props:
  "buy_price (raise_max pos p) = buy_price pos"
  "creator_wallets (raise_max pos p) = creator_wallets pos"
  "max_price_seen pos \<le> max_price_seen (raise_max pos p)"
  "max_price_seen (raise_max pos p) = max (max_price_seen pos) p"
  by (auto simp: raise_max_def max_price_seen_def)

lemma evaluate_tp_state:
  assumes "held_tokens s tok = Some pos" "buy_price pos \<noteq> 0" "sell_multiplier s \<le> p / buy_price pos"
  shows "snd (evaluate_held_tokens_for_sale env tok p w s) = snd (execute_sale env tok s)"
proof (cases "simulation_mode s")
  case True
  from evaluate_take_profit_sim[OF True assms] show ?thesis by simp
next
  case False
  from evaluate_take_profit_real[OF False assms] show ?thesis by simp
qed

lemma evaluate_below_state:
  assumes "held_tokens s tok = Some pos" "buy_price pos \<noteq> 0"
    "\<not> sell_multiplier s \<le> p / buy_price pos"
  shows "snd (evaluate_held_tokens_for_sale env tok p w s) =
            snd (execute_sale env tok (s\<lparr>held_tokens := (held_tokens s)(tok \<mapsto> raise_max pos p)\<rparr>))
       \<or> snd (evaluate_held_tokens_for_sale env tok p w s) =
            s\<lparr>held_tokens := (held_tokens s)(tok \<mapsto> raise_max pos p)\<rparr>"
proof (cases "p < max_price_seen (raise_max pos p) * (1 - trailing_stop_percent s)")
  case True
  show ?thesis unfolding evaluate_below_take_profit[OF assms] Let_def
    by (simp only: True if_True snd_conv simp_thms)
next
  case ts: False
  show ?thesis
  proof (cases "w \<or> creator_wallet_selling env tok (creator_wallets pos)")
    case True
    show ?thesis unfolding evaluate_below_take_profit[OF assms] Let_def
      by (simp only: ts True if_True if_False snd_conv simp_thms)
  next
    case False
    show ?thesis unfolding evaluate_below_take_profit[OF assms] Let_def
      by (simp only: ts False if_False snd_conv simp_thms)
  qed
qed

lemma evaluate_emitted:
  assumes "held_tokens s tok = Some pos" and "buy_price pos \<noteq> 0"
  shows "emitted_reason (fst (evaluate_held_tokens_for_sale env tok p whale s)) =
     (if sell_multiplier s \<le> p / buy_price pos then Some TakeProfit
      else if p < max (max_price_seen pos) p * (1 - trailing_stop_percent s) then Some TrailingStop
      else if whale \<or> creator_wallet_selling env tok (creator_wallets pos) then Some DumpSignal
      else None)"
proof (cases "sell_multiplier s \<le> p / buy_price pos")
  case True
  show ?thesis
  proof (cases "simulation_mode s")
    case sim: True
    show ?thesis unfolding evaluate_take_profit_sim[OF sim assms True] using True by simp
  next
    case real: False
    show ?thesis unfolding evaluate_take_profit_real[OF real assms True] using True by simp
  qed
next
  case False
  show ?thesis unfolding evaluate_below_take_profit[OF assms False] Let_def raise_max_props(4)
    using False by simp
qed

subsection \<open>Positions across evaluations, candidates and the scanner\<close>

lemma evaluate_position_step:
  assumes "held_tokens (snd (evaluate_held_tokens_for_sale env tok p w s)) k = Some pos'"
  shows "\<exists>pos. held_tokens s k = Some pos \<and> buy_price pos' = buy_price pos
           \<and> max_price_seen pos \<le> max_price_seen pos'"
proof (cases "held_tokens s tok")
  case None
  with assms show ?thesis by (simp add: evaluate_not_held)
next
  case (Some pos)
  show ?thesis
  proof (cases "buy_price pos = 0")
    case True
    with Some assms show ?thesis by (simp add: evaluate_zero_buy_price)
  next
    case nz: False
    show ?thesis
    proof (cases "sell_multiplier s \<le> p / buy_price pos")
      case True
      from assms have "held_tokens (snd (execute_sale env tok s)) k = Some pos'"
        by (simp only: evaluate_tp_state[OF Some nz True])
      then have "held_tokens s k = Some pos'" by (rule execute_sale_held)
      then show ?thesis by simp
    next
      case False
      define s1 where "s1 = s\<lparr>held_tokens := (held_tokens s)(tok \<mapsto> raise_max pos p)\<rparr>"
      have h1: "held_tokens s1 = (held_tokens s)(tok \<mapsto> raise_max pos p)"
        by (simp add: s1_def)
      from evaluate_below_state[OF Some nz False, of env w]
      have "snd (evaluate_held_tokens_for_sale env tok p w s) = snd (execute_sale env tok s1)
          \<or> snd (evaluate_held_tokens_for_sale env tok p w s) = s1"
        by (simp only: s1_def)
      then have "held_tokens s1 k = Some pos'"
      proof
        assume "snd (evaluate_held_tokens_for_sale env tok p w s) = snd (execute_sale env tok s1)"
        with assms have "held_tokens (snd (execute_sale env tok s1)) k = Some pos'" by simp
        then show ?thesis by (rule execute_sale_held)
      next
        assume "snd (evaluate_held_tokens_for_sale env tok p w s) = s1"
        with assms show ?thesis by simp
      qed
      then have k: "((held_tokens s)(tok \<mapsto> raise_max pos p)) k = Some pos'" by (simp only: h1)
      show ?thesis
      proof (cases "k = tok")
        case True
        with k have "pos' = raise_max pos p" by simp
        with True Some raise_max_props(1,3)[of pos p] show ?thesis by simp
      next
        case False
        with k have "held_tokens s k = Some pos'" by simp
        then show ?thesis by simp
      qed
    qed
  qed
qed

lemma evaluate_all_position:
  "held_tokens (evaluate_all us s) k = Some pos' \<Longrightarrow>
     \<exists>pos. held_tokens s k = Some pos \<and> buy_price pos' = buy_price pos
           \<and> max_price_seen pos \<le> max_price_seen pos'"
proof (induction us arbitrary: s)
  case Nil
  then show ?case by simp
next
  case (Cons u us)
  from Cons.IH[OF Cons.prems[simplified]] obtain pos1 where
    h1: "held_tokens (snd (evaluate_held_tokens_for_sale (pu_env u) (pu_token u) (pu_price u) (pu_whale u) s)) k = Some pos1"
    and e1: "buy_price pos' = buy_price pos1" and m1: "max_price_seen pos1 \<le> max_price_seen pos'"
    by blast
  from evaluate_position_step[OF h1] obtain pos where
    "held_tokens s k = Some pos" "buy_price pos1 = buy_price pos" "max_price_seen pos \<le> max_price_seen pos1"
    by blast
  with e1 m1 show ?case by auto
qed

lemma check_honeypot_frame:
  "available_capital (snd (check_token_honeypot_and_taxes t resp tok s)) = available_capital s"
  "simulation_mode (snd (check_token_honeypot_and_taxes t resp tok s)) = simulation_mode s"
  "held_tokens (snd (check_token_honeypot_and_taxes t resp tok s)) = held_tokens s"
  "buy_amount_sol (snd (check_token_honeypot_and_taxes t resp tok s)) = buy_amount_sol s"
  "real_trades (snd (check_token_honeypot_and_taxes t resp tok s)) = real_trades s"
  by (simp_all add: check_token_honeypot_and_taxes_def Let_def split: option.splits prod.splits)

lemma admission_reject_not_bought:
  "admission_reject env tok info hl sl s = Some r \<Longrightarrow> r \<notin> {SimulatedBuy, TrustedBuy, BuyExecuted}"
  by (auto simp: admission_reject_def Let_def split: if_splits)

lemma exploitation_cases:
  "case exploitation_buy benv tok p s of (out, s') \<Rightarrow>
     available_capital s' = available_capital s \<and>
     simulation_mode s' = simulation_mode s \<and>
     held_tokens s' =
       (if out \<in> {SimulatedBuy, TrustedBuy, BuyExecuted}
        then (held_tokens s)(tok \<mapsto> new_position p (buy_amount_sol s) (detected_creators benv) (b_now benv))
        else held_tokens s)"
  by (simp add: exploitation_buy_def Let_def split: option.splits)

lemma exploration_cases:
  "case exploration_buy benv tok p s of (out, s') \<Rightarrow>
     available_capital s' = available_capital s \<and>
     simulation_mode s' = simulation_mode s \<and>
     held_tokens s' =
       (if out \<in> {SimulatedBuy, TrustedBuy, BuyExecuted}
        then (held_tokens s)(tok \<mapsto> new_position p (buy_amount_sol s) (detected_creators benv) (b_now benv))
        else held_tokens s)"
proof -
  obtain info s1 where c: "check_token_honeypot_and_taxes (b_now benv) (oracle_reply benv) tok s = (info, s1)"
    by (cases "check_token_honeypot_and_taxes (b_now benv) (oracle_reply benv) tok s")
  have f: "available_capital s1 = available_capital s" "simulation_mode s1 = simulation_mode s"
    "held_tokens s1 = held_tokens s" "buy_amount_sol s1 = buy_amount_sol s"
    using check_honeypot_frame[of "b_now benv" "oracle_reply benv" tok s] c by simp_all
  show ?thesis
  proof (cases "admission_reject benv tok info (check_token_liquidity (liquidity_quote benv))
                  (check_token_sellable (sellable_quote benv)) s1")
    case None
    then show ?thesis
      by (simp add: exploration_buy_def c Let_def f record_real_trade_def)
  next
    case (Some r)
    with admission_reject_not_bought[OF Some] show ?thesis
      by (simp add: exploration_buy_def c Let_def f)
  qed
qed

lemma candidate_cases:
  "case process_new_token_candidate benv tok p s of (out, s') \<Rightarrow>
     available_capital s' = available_capital s \<and>
     simulation_mode s' = simulation_mode s \<and>
     held_tokens s' =
       (if out \<in> {SimulatedBuy, TrustedBuy, BuyExecuted}
        then (held_tokens s)(tok \<mapsto> new_position p (buy_amount_sol s)
                (if simulation_mode s then [] else detected_creators benv) (b_now benv))
        else held_tokens s)"
proof (cases "simulation_mode s")
  case True
  then show ?thesis
    by (simp add: process_new_token_candidate_def simulated_buy_def Let_def record_simulation_trade_def)
next
  case False
  show ?thesis
    using exploitation_cases[where benv=benv and tok=tok and p=p and s=s]
          exploration_cases[where benv=benv and tok=tok and p=p and s=s] False
    by (simp add: process_new_token_candidate_def Let_def)
qed

lemma candidate_capital:
  "available_capital (snd (process_new_token_candidate benv tok p s)) = available_capital s"
  using candidate_cases[where benv=benv and tok=tok and p=p and s=s] by (simp split: prod.splits)

lemma candidate_held:
  "held_tokens (snd (process_new_token_candidate benv tok p s)) =
     (if fst (process_new_token_candidate benv tok p s) \<in> {SimulatedBuy, TrustedBuy, BuyExecuted}
      then (held_tokens s)(tok \<mapsto> new_position p (buy_amount_sol s)
              (if simulation_mode s then [] else detected_creators benv) (b_now benv))
      else held_tokens s)"
  using candidate_cases[where benv=benv and tok=tok and p=p and s=s] by (simp split: prod.splits)

lemma candidate_position:
  assumes "held_tokens (snd (process_new_token_candidate benv tok p s)) k = Some pos'"
  shows "held_tokens s k = Some pos' \<or> (k = tok \<and> buy_price pos' = p \<and> max_price pos' = None)"
proof (cases "fst (process_new_token_candidate benv tok p s) \<in> {SimulatedBuy, TrustedBuy, BuyExecuted}")
  case True
  from assms have "((held_tokens s)(tok \<mapsto> new_position p (buy_amount_sol s)
              (if simulation_mode s then [] else detected_creators benv) (b_now benv))) k = Some pos'"
    unfolding candidate_held using True by simp
  then show ?thesis by (cases "k = tok") (auto simp: new_position_def)
next
  case False
  from assms have "held_tokens s k = Some pos'" unfolding candidate_held using False by simp
  then show ?thesis by simp
qed

lemma candidate_bought:
  assumes "fst (process_new_token_candidate benv tok p s) \<in> {SimulatedBuy, TrustedBuy, BuyExecuted}"
  shows "\<exists>pos. held_tokens (snd (process_new_token_candidate benv tok p s)) tok = Some pos
           \<and> buy_price pos = p \<and> max_price pos = None"
  unfolding candidate_held using assms by (simp add: new_position_def)

lemma scan_forwards_zero:
  "scan_instructions ixs = Forwarded m p \<Longrightarrow> p = 0"
  by (induction ixs rule: scan_instructions.induct)
     (auto simp: Let_def split: sum.splits if_splits)

lemma pool_forwards_zero:
  "process_new_pool f = Forwarded m p \<Longrightarrow> p = 0"
  by (auto simp: process_new_pool_def dest: scan_forwards_zero split: fetch_result.splits if_splits)

lemma evaluate_all_zero:
  "held_tokens s tok = Some pos \<Longrightarrow> buy_price pos = 0 \<Longrightarrow> \<forall>u\<in>set us. pu_token u = tok \<Longrightarrow>
   evaluate_all us s = s"
  by (induction us) (simp_all add: evaluate_zero_buy_price)

lemma ex_state_facts:
  "held_tokens (ex_state sim) ex_token = Some ex_position"
  "sell_multiplier (ex_state sim) = 2"
  "trailing_stop_percent (ex_state sim) = 15/100"
  "simulation_mode (ex_state sim) = sim"
  "simulation_results (ex_state sim) = []"
  "successful_creator_cache (ex_state sim) = Some []"
  "saved_creator_cache (ex_state sim) = []"
  "max_price_seen ex_position = 18/10"
  "buy_price ex_position = 1"
  "creator_wallets ex_position = [''CreatorW'']"
  by (simp_all add: ex_state_def init_decision_module_def ex_position_def max_price_seen_def)

section \<open>Lemmas on the capital and concrete evaluations\<close>

lemma ex_discriminant_decodes:
  "b58decode ''3kYkVJu9q4tkV'' = Inr [216, 28, 142, 35, 132, 150, 233, 155, 254]"
  by (simp add: b58decode_def rstrip_def is_space_def b58_alphabet_def)

lemma ex_pool_forwarded:
  "process_new_pool (Tx ex_pool_tx) = Forwarded ''NewMint'' 0"
  by (simp add: process_new_pool_def ex_pool_tx_def ex_discriminant_decodes
      initialize2_discriminant_def RAYDIUM_LP_V4_def SOL_MINT_def)

lemma evaluate_capital:
  "available_capital (snd (evaluate_held_tokens_for_sale env tok p w s)) = available_capital s"
proof (cases "held_tokens s tok")
  case None
  then show ?thesis by (simp add: evaluate_not_held)
next
  case (Some pos)
  show ?thesis
  proof (cases "buy_price pos = 0")
    case True
    with Some show ?thesis by (simp add: evaluate_zero_buy_price)
  next
    case nz: False
    show ?thesis
    proof (cases "sell_multiplier s \<le> p / buy_price pos")
      case True
      show ?thesis unfolding evaluate_tp_state[OF Some nz True]
        using execute_sale_frame[of env tok s "fst (execute_sale env tok s)" "snd (execute_sale env tok s)"]
        by simp
    next
      case False
      let ?s1 = "s\<lparr>held_tokens := (held_tokens s)(tok \<mapsto> raise_max pos p)\<rparr>"
      from evaluate_below_state[OF Some nz False, of env w] show ?thesis
      proof
        assume a: "snd (evaluate_held_tokens_for_sale env tok p w s) = snd (execute_sale env tok ?s1)"
        show ?thesis unfolding a
          using execute_sale_frame[of env tok ?s1 "fst (execute_sale env tok ?s1)" "snd (execute_sale env tok ?s1)"]
          by simp
      next
        assume a: "snd (evaluate_held_tokens_for_sale env tok p w s) = ?s1"
        show ?thesis unfolding a by simp
      qed
    qed
  qed
qed

lemma set_param_capital:
  "available_capital (set_param k v s) = (if k = ''available_capital'' then v else available_capital s)"
  by (simp add: set_param_def)

lemma step_capital:
  "0 \<le> available_capital s \<Longrightarrow> configures_nonneg e \<Longrightarrow> 0 \<le> available_capital (step e s)"
  by (cases e) (simp_all add: set_initial_capital_def set_param_capital candidate_capital evaluate_capital)

lemma run_capital:
  "0 \<le> available_capital s \<Longrightarrow> \<forall>e\<in>set evs. configures_nonneg e \<Longrightarrow> 0 \<le> available_capital (run evs s)"
proof (induction evs arbitrary: s)
  case Nil
  then show ?case by simp
next
  case (Cons e evs)
  from Cons.prems have "0 \<le> available_capital (step e s)" by (simp add: step_capital)
  with Cons show ?case by simp
qed

lemma ex_buy_executed:
  "fst (process_new_token_candidate (ex_buy_env (Http 200 (Body ex_clean_oracle))) ex_token 1 ex_real_state)
     = BuyExecuted"
  by (simp add: process_new_token_candidate_def exploration_buy_def admission_reject_def
      check_token_honeypot_and_taxes_def honeypot_result_def Let_def
      ex_buy_env_def ex_real_state_def ex_clean_oracle_def set_initial_capital_def init_decision_module_def
      check_token_liquidity_def check_token_sellable_def py_int_def out_amount_of_def digit_val_def tax_get_def)

section \<open>C1: capital accounting\<close>

text \<open>
  C1 as stated fails: an admitted buy leaves \<open>available_capital\<close> as it was. Here a real buy
  of 0.1 goes through all checks with a capital of 1.0, and the capital is still 1.0.
\<close>

theorem capital_not_decremented_counterexample:
  "fst (process_new_token_candidate (ex_buy_env (Http 200 (Body ex_clean_oracle))) ex_token 1 ex_real_state)
     = BuyExecuted
   \<and> buy_amount_sol ex_real_state = 1/10
   \<and> available_capital ex_real_state = 1
   \<and> available_capital (snd (process_new_token_candidate (ex_buy_env (Http 200 (Body ex_clean_oracle)))
         ex_token 1 ex_real_state)) = 1
   \<and> available_capital (snd (process_new_token_candidate (ex_buy_env (Http 200 (Body ex_clean_oracle)))
         ex_token 1 ex_real_state)) \<noteq> available_capital ex_real_state - buy_amount_sol ex_real_state"
  by (simp add: ex_buy_executed candidate_capital)
     (simp add: ex_real_state_def set_initial_capital_def init_decision_module_def)

text \<open>
  C1, amended. \<open>available_capital\<close> is written by \<^verbatim>\<open>set_initial_capital\<close> only (and by a
  parameter write that names it): processing a candidate, executing a sale and evaluating a
  held token leave it unchanged. So over any run of the engine it stays non-negative as long
  as it starts non-negative and every configured amount is non-negative.
\<close>

theorem available_capital_only_configured:
  "available_capital (snd (process_new_token_candidate benv tok p s)) = available_capital s
   \<and> available_capital (snd (execute_sale env tok s)) = available_capital s
   \<and> available_capital (snd (evaluate_held_tokens_for_sale env tok q w s)) = available_capital s
   \<and> available_capital (set_initial_capital a s) = a
   \<and> (0 \<le> available_capital s \<and> (\<forall>e\<in>set evs. configures_nonneg e)
        \<longrightarrow> 0 \<le> available_capital (run evs s))"
  using execute_sale_frame[of env tok s "fst (execute_sale env tok s)" "snd (execute_sale env tok s)"]
  by (simp add: candidate_capital evaluate_capital run_capital set_initial_capital_def)

theorem available_capital_only_configured_witness:
  "0 \<le> available_capital ex_real_state
   \<and> configures_nonneg (SetCapital 2)
   \<and> configures_nonneg (Candidate (ex_buy_env Unreachable) ex_token 1)
   \<and> 0 \<le> available_capital (run [SetCapital 2, Candidate (ex_buy_env Unreachable) ex_token 1] ex_real_state)
   \<and> available_capital (set_initial_capital 2 ex_real_state) = 2"
  using available_capital_only_configured[of "ex_buy_env Unreachable" ex_token 1 ex_real_state
          ex_sale_env 1 False 2 "[SetCapital 2, Candidate (ex_buy_env Unreachable) ex_token 1]"]
  by (simp add: ex_real_state_def set_initial_capital_def init_decision_module_def)

section \<open>Lemmas on sales in simulation\<close>

lemma ex_env_facts:
  "now ex_sale_env = 100"
  "buy_timestamp ex_position = 0"
  by (simp_all add: ex_sale_env_def ex_position_def)

lemma evaluate_sim_sale:
  assumes "simulation_mode s" "held_tokens s tok = Some pos"
    "emitted_reason (fst (evaluate_held_tokens_for_sale env tok p whale s)) = Some r"
  shows "snd (evaluate_held_tokens_for_sale env tok p whale s) =
           s\<lparr>simulation_results := simulation_results s @
                 [\<lparr>token = tok, price = buy_price pos * sell_multiplier s, action = ''sell'',
                   timestamp = now env\<rparr>],
             held_tokens := (held_tokens s)(tok := None)\<rparr>"
proof (cases "buy_price pos = 0")
  case True
  with assms show ?thesis by (simp add: evaluate_zero_buy_price)
next
  case nz: False
  show ?thesis
  proof (cases "sell_multiplier s \<le> p / buy_price pos")
    case True
    show ?thesis unfolding evaluate_tp_state[OF assms(2) nz True]
      by (simp add: execute_sale_sim[OF assms(1,2)])
  next
    case ntp: False
    let ?s1 = "s\<lparr>held_tokens := (held_tokens s)(tok \<mapsto> raise_max pos p)\<rparr>"
    have sim1: "simulation_mode ?s1" using assms(1) by simp
    have h1: "held_tokens ?s1 tok = Some (raise_max pos p)" by simp
    have sold: "snd (evaluate_held_tokens_for_sale env tok p whale s) = snd (execute_sale env tok ?s1)"
    proof (cases "p < max_price_seen (raise_max pos p) * (1 - trailing_stop_percent s)")
      case True
      then show ?thesis
        unfolding evaluate_below_take_profit[OF assms(2) nz ntp] Let_def by simp
    next
      case ts: False
      show ?thesis
      proof (cases "whale \<or> creator_wallet_selling env tok (creator_wallets pos)")
        case True
        with ts show ?thesis
          unfolding evaluate_below_take_profit[OF assms(2) nz ntp] Let_def
          by (simp only: if_True if_False snd_conv)
      next
        case False
        with ts assms(3) show ?thesis
          unfolding evaluate_below_take_profit[OF assms(2) nz ntp] Let_def
          by (simp only: if_False fst_conv emitted_reason.simps option.distinct)
      qed
    qed
    show ?thesis unfolding sold execute_sale_sim[OF sim1 h1]
      by (simp add: raise_max_props)
  qed
qed

lemma evaluate_sim_caches:
  assumes "simulation_mode s"
  shows "successful_creator_cache (snd (evaluate_held_tokens_for_sale env tok p w s)) = successful_creator_cache s
       \<and> saved_creator_cache (snd (evaluate_held_tokens_for_sale env tok p w s)) = saved_creator_cache s"
proof (cases "held_tokens s tok")
  case None
  then show ?thesis by (simp add: evaluate_not_held)
next
  case (Some pos)
  show ?thesis
  proof (cases "emitted_reason (fst (evaluate_held_tokens_for_sale env tok p w s))")
    case (Some r)
    show ?thesis unfolding evaluate_sim_sale[OF assms \<open>held_tokens s tok = Some pos\<close> Some] by simp
  next
    case None
    show ?thesis
    proof (cases "buy_price pos = 0")
      case True
      with \<open>held_tokens s tok = Some pos\<close> show ?thesis by (simp add: evaluate_zero_buy_price)
    next
      case nz: False
      from None have ntp: "\<not> sell_multiplier s \<le> p / buy_price pos"
        unfolding evaluate_emitted[OF \<open>held_tokens s tok = Some pos\<close> nz] by (simp split: if_splits)
      from None have nts: "\<not> p < max (max_price_seen pos) p * (1 - trailing_stop_percent s)"
        and nd: "\<not> (w \<or> creator_wallet_selling env tok (creator_wallets pos))"
        unfolding evaluate_emitted[OF \<open>held_tokens s tok = Some pos\<close> nz]
        by (simp_all split: if_splits)
      from nts nd show ?thesis
        unfolding evaluate_below_take_profit[OF \<open>held_tokens s tok = Some pos\<close> nz ntp] Let_def
          raise_max_props(4)
        by simp
    qed
  qed
qed


section \<open>Lemmas on the effect of an exit\<close>

text \<open>The two outcomes of a sale in real mode, and the positions that a sale leaves alone.\<close>

lemma execute_sale_real_ok:
  "\<not> simulation_mode s \<Longrightarrow> held_tokens s tok = Some pos \<Longrightarrow> sell_reply env = Some d \<Longrightarrow>
   sell_success d \<Longrightarrow>
   execute_sale env tok s =
     (Some (case sell_price_sol d of None \<Rightarrow> buy_price pos | Some q \<Rightarrow> q),
      s\<lparr>real_trades := real_trades s @
           [\<lparr>token = tok, price = (case sell_price_sol d of None \<Rightarrow> buy_price pos | Some q \<Rightarrow> q),
             action = ''sell'', timestamp = now env\<rparr>],
         held_tokens := (held_tokens s)(tok := None)\<rparr>)"
  by (simp add: execute_sale_def Let_def record_real_trade_def)

lemma execute_sale_real_failed:
  "\<not> simulation_mode s \<Longrightarrow> sell_reply env = None \<or> (\<exists>d. sell_reply env = Some d \<and> \<not> sell_success d) \<Longrightarrow>
   execute_sale env tok s = (None, s)"
  by (auto simp: execute_sale_def split: option.splits)

lemma execute_sale_other:
  "k \<noteq> tok \<Longrightarrow> held_tokens (snd (execute_sale env tok s)) k = held_tokens s k"
  using execute_sale_result[of env tok s "fst (execute_sale env tok s)" "snd (execute_sale env tok s)"]
  by auto

text \<open>The state after an evaluation, by the branch taken.\<close>

lemma evaluate_state:
  assumes "held_tokens s tok = Some pos" and "buy_price pos \<noteq> 0"
  shows "snd (evaluate_held_tokens_for_sale env tok p whale s) =
     (if sell_multiplier s \<le> p / buy_price pos then snd (execute_sale env tok s)
      else if emitted_reason (fst (evaluate_held_tokens_for_sale env tok p whale s)) \<noteq> None
      then snd (execute_sale env tok (s\<lparr>held_tokens := (held_tokens s)(tok \<mapsto> raise_max pos p)\<rparr>))
      else s\<lparr>held_tokens := (held_tokens s)(tok \<mapsto> raise_max pos p)\<rparr>)"
proof (cases "sell_multiplier s \<le> p / buy_price pos")
  case True
  then show ?thesis by (simp add: evaluate_tp_state[OF assms True])
next
  case ntp: False
  show ?thesis
  proof (cases "p < max_price_seen (raise_max pos p) * (1 - trailing_stop_percent s)")
    case True
    with ntp show ?thesis
      unfolding evaluate_below_take_profit[OF assms ntp] Let_def by simp
  next
    case ts: False
    show ?thesis
    proof (cases "whale \<or> creator_wallet_selling env tok (creator_wallets pos)")
      case True
      with ts ntp show ?thesis
        unfolding evaluate_below_take_profit[OF assms ntp] Let_def by simp
    next
      case False
      with ts ntp show ?thesis
        unfolding evaluate_below_take_profit[OF assms ntp] Let_def by simp
    qed
  qed
qed

text \<open>
  What an emitted sale does, on a state that holds the token (the position or the position
  with the raised maximum, which have the same buy price).
\<close>

lemma evaluate_sale_source:
  assumes "held_tokens s tok = Some pos" and "buy_price pos \<noteq> 0"
    and "emitted_reason (fst (evaluate_held_tokens_for_sale env tok p whale s)) \<noteq> None"
  shows "\<exists>s0 pos0. snd (evaluate_held_tokens_for_sale env tok p whale s) = snd (execute_sale env tok s0)
           \<and> held_tokens s0 = (held_tokens s)(tok \<mapsto> pos0) \<and> buy_price pos0 = buy_price pos
           \<and> (pos0 = pos \<or> pos0 = raise_max pos p)
           \<and> simulation_mode s0 = simulation_mode s \<and> sell_multiplier s0 = sell_multiplier s
           \<and> simulation_results s0 = simulation_results s \<and> real_trades s0 = real_trades s"
proof (cases "sell_multiplier s \<le> p / buy_price pos")
  case True
  have "held_tokens s = (held_tokens s)(tok \<mapsto> pos)" using assms(1) by (simp add: fun_upd_idem)
  with evaluate_state[OF assms(1,2), of env p whale] True show ?thesis by auto
next
  case False
  let ?s1 = "s\<lparr>held_tokens := (held_tokens s)(tok \<mapsto> raise_max pos p)\<rparr>"
  have "snd (evaluate_held_tokens_for_sale env tok p whale s) = snd (execute_sale env tok ?s1)"
    using evaluate_state[OF assms(1,2), of env p whale] False assms(3) by simp
  moreover have "held_tokens ?s1 = (held_tokens s)(tok \<mapsto> raise_max pos p)"
    "simulation_mode ?s1 = simulation_mode s" "sell_multiplier ?s1 = sell_multiplier s"
    "simulation_results ?s1 = simulation_results s" "real_trades ?s1 = real_trades s"
    by simp_all
  ultimately show ?thesis using raise_max_props(1)[of pos p] by blast
qed

lemma evaluate_sale_sim_effect:
  assumes "held_tokens s tok = Some pos" and "buy_price pos \<noteq> 0"
    and "emitted_reason (fst (evaluate_held_tokens_for_sale env tok p whale s)) \<noteq> None"
    and "simulation_mode s"
  shows "held_tokens (snd (evaluate_held_tokens_for_sale env tok p whale s)) tok = None
       \<and> simulation_results (snd (evaluate_held_tokens_for_sale env tok p whale s)) =
           simulation_results s @
             [\<lparr>token = tok, price = buy_price pos * sell_multiplier s, action = ''sell'',
               timestamp = now env\<rparr>]
       \<and> real_trades (snd (evaluate_held_tokens_for_sale env tok p whale s)) = real_trades s"
proof -
  from assms(3) obtain r where
    "emitted_reason (fst (evaluate_held_tokens_for_sale env tok p whale s)) = Some r" by auto
  from evaluate_sim_sale[OF assms(4,1) this] show ?thesis by simp
qed

lemma evaluate_sale_real_effect:
  assumes "held_tokens s tok = Some pos" and "buy_price pos \<noteq> 0"
    and "emitted_reason (fst (evaluate_held_tokens_for_sale env tok p whale s)) \<noteq> None"
    and "\<not> simulation_mode s" and "sell_reply env = Some d" and "sell_success d"
  shows "held_tokens (snd (evaluate_held_tokens_for_sale env tok p whale s)) tok = None
       \<and> real_trades (snd (evaluate_held_tokens_for_sale env tok p whale s)) =
           real_trades s @
             [\<lparr>token = tok, price = (case sell_price_sol d of None \<Rightarrow> buy_price pos | Some q \<Rightarrow> q),
               action = ''sell'', timestamp = now env\<rparr>]
       \<and> simulation_results (snd (evaluate_held_tokens_for_sale env tok p whale s)) = simulation_results s"
proof -
  from evaluate_sale_source[OF assms(1,2,3)] obtain s0 pos0 where
    e: "snd (evaluate_held_tokens_for_sale env tok p whale s) = snd (execute_sale env tok s0)"
    and h: "held_tokens s0 = (held_tokens s)(tok \<mapsto> pos0)" and b: "buy_price pos0 = buy_price pos"
    and m: "simulation_mode s0 = simulation_mode s"
    and j: "simulation_results s0 = simulation_results s" "real_trades s0 = real_trades s"
    by blast
  from h have h0: "held_tokens s0 tok = Some pos0" by simp
  from m assms(4) have r: "\<not> simulation_mode s0" by simp
  show ?thesis unfolding e execute_sale_real_ok[OF r h0 assms(5,6)] by (simp add: b j split: option.splits)
qed

lemma evaluate_sale_failed_effect:
  assumes "held_tokens s tok = Some pos" and "buy_price pos \<noteq> 0"
    and "emitted_reason (fst (evaluate_held_tokens_for_sale env tok p whale s)) \<noteq> None"
    and "\<not> simulation_mode s"
    and "sell_reply env = None \<or> (\<exists>d. sell_reply env = Some d \<and> \<not> sell_success d)"
  shows "(held_tokens (snd (evaluate_held_tokens_for_sale env tok p whale s)) tok = Some pos
          \<or> held_tokens (snd (evaluate_held_tokens_for_sale env tok p whale s)) tok = Some (raise_max pos p))
       \<and> real_trades (snd (evaluate_held_tokens_for_sale env tok p whale s)) = real_trades s
       \<and> simulation_results (snd (evaluate_held_tokens_for_sale env tok p whale s)) = simulation_results s"
proof -
  from evaluate_sale_source[OF assms(1,2,3)] obtain s0 pos0 where
    e: "snd (evaluate_held_tokens_for_sale env tok p whale s) = snd (execute_sale env tok s0)"
    and h: "held_tokens s0 = (held_tokens s)(tok \<mapsto> pos0)"
    and c: "pos0 = pos \<or> pos0 = raise_max pos p"
    and m: "simulation_mode s0 = simulation_mode s"
    and j: "simulation_results s0 = simulation_results s" "real_trades s0 = real_trades s"
    by blast
  from m assms(4) have r: "\<not> simulation_mode s0" by simp
  from h have h0: "held_tokens s0 tok = Some pos0" by simp
  show ?thesis unfolding e execute_sale_real_failed[OF r assms(5)] using h0 c j by auto
qed

lemma evaluate_hold_effect:
  assumes "held_tokens s tok = Some pos" and "buy_price pos \<noteq> 0"
    and "emitted_reason (fst (evaluate_held_tokens_for_sale env tok p whale s)) = None"
  shows "held_tokens (snd (evaluate_held_tokens_for_sale env tok p whale s)) tok = Some (raise_max pos p)
       \<and> real_trades (snd (evaluate_held_tokens_for_sale env tok p whale s)) = real_trades s
       \<and> simulation_results (snd (evaluate_held_tokens_for_sale env tok p whale s)) = simulation_results s"
proof -
  from assms(3) have ntp: "\<not> sell_multiplier s \<le> p / buy_price pos"
    unfolding evaluate_emitted[OF assms(1,2)] by (simp split: if_splits)
  from evaluate_state[OF assms(1,2), of env p whale] ntp assms(3)
  have "snd (evaluate_held_tokens_for_sale env tok p whale s) =
          s\<lparr>held_tokens := (held_tokens s)(tok \<mapsto> raise_max pos p)\<rparr>" by simp
  then show ?thesis by simp
qed

lemma evaluate_other_tokens:
  assumes "k \<noteq> tok"
  shows "held_tokens (snd (evaluate_held_tokens_for_sale env tok p whale s)) k = held_tokens s k"
proof (cases "held_tokens s tok")
  case None
  then show ?thesis by (simp add: evaluate_not_held)
next
  case (Some pos)
  show ?thesis
  proof (cases "buy_price pos = 0")
    case True
    with Some show ?thesis by (simp add: evaluate_zero_buy_price)
  next
    case False
    show ?thesis unfolding evaluate_state[OF Some False]
      using assms by (simp add: execute_sale_other)
  qed
qed

section \<open>C2: the exit policy and its priorities\<close>

text \<open>
  C2. For a held position with a non-zero buy price and an observed price \<open>p\<close>, the
  evaluation emits a take-profit sale exactly when \<open>p / buy_price \<ge> sell_multiplier\<close>;
  otherwise it emits a trailing-stop sale exactly when \<open>p\<close> is below the running maximum
  (raised to \<open>p\<close>) times \<open>1 - trailing_stop_percent\<close>; and it emits a sale for a dump signal
  (whale or creator selling) exactly when neither of the two holds and the signal is there.
  So take-profit outranks the trailing stop, which outranks the creator-side sale.

  An emitted sale is a call of \<^verbatim>\<open>_execute_sale\<close> and has its effect on the engine. In
  simulation the position is removed and a sell entry at \<open>buy_price * sell_multiplier\<close> is
  appended to the simulation journal. In real mode, when the order executor reports success,
  the position is removed and a sell entry at the reported price (the buy price when none is
  reported) is appended to the journal of real trades; when the executor fails, the position
  stays and no journal changes. When no sale is emitted the position stays, with its running
  maximum raised to \<open>p\<close>, and no journal changes. The positions of other tokens are never
  touched.
\<close>

theorem exit_policy_priority:
  assumes "held_tokens s tok = Some pos" and "buy_price pos \<noteq> 0"
  shows "(emitted_reason (fst (evaluate_held_tokens_for_sale env tok p whale s)) = Some TakeProfit
            \<longleftrightarrow> p / buy_price pos \<ge> sell_multiplier s)
       \<and> (\<not> p / buy_price pos \<ge> sell_multiplier s \<longrightarrow>
            (emitted_reason (fst (evaluate_held_tokens_for_sale env tok p whale s)) = Some TrailingStop
               \<longleftrightarrow> p < max (max_price_seen pos) p * (1 - trailing_stop_percent s)))
       \<and> (emitted_reason (fst (evaluate_held_tokens_for_sale env tok p whale s)) = Some DumpSignal
            \<longleftrightarrow> \<not> p / buy_price pos \<ge> sell_multiplier s
               \<and> \<not> p < max (max_price_seen pos) p * (1 - trailing_stop_percent s)
               \<and> (whale \<or> creator_wallet_selling env tok (creator_wallets pos)))
       \<and> (emitted_reason (fst (evaluate_held_tokens_for_sale env tok p whale s)) \<noteq> None
            \<and> simulation_mode s \<longrightarrow>
            held_tokens (snd (evaluate_held_tokens_for_sale env tok p whale s)) tok = None
            \<and> simulation_results (snd (evaluate_held_tokens_for_sale env tok p whale s)) =
                simulation_results s @
                  [\<lparr>token = tok, price = buy_price pos * sell_multiplier s, action = ''sell'',
                    timestamp = now env\<rparr>]
            \<and> real_trades (snd (evaluate_held_tokens_for_sale env tok p whale s)) = real_trades s)
       \<and> (emitted_reason (fst (evaluate_held_tokens_for_sale env tok p whale s)) \<noteq> None
            \<and> \<not> simulation_mode s \<and> sell_reply env = Some d \<and> sell_success d \<longrightarrow>
            held_tokens (snd (evaluate_held_tokens_for_sale env tok p whale s)) tok = None
            \<and> real_trades (snd (evaluate_held_tokens_for_sale env tok p whale s)) =
                real_trades s @
                  [\<lparr>token = tok,
                    price = (case sell_price_sol d of None \<Rightarrow> buy_price pos | Some q \<Rightarrow> q),
                    action = ''sell'', timestamp = now env\<rparr>]
            \<and> simulation_results (snd (evaluate_held_tokens_for_sale env tok p whale s)) =
                simulation_results s)
       \<and> (emitted_reason (fst (evaluate_held_tokens_for_sale env tok p whale s)) \<noteq> None
            \<and> \<not> simulation_mode s
            \<and> (sell_reply env = None \<or> (\<exists>d'. sell_reply env = Some d' \<and> \<not> sell_success d')) \<longrightarrow>
            (held_tokens (snd (evaluate_held_tokens_for_sale env tok p whale s)) tok = Some pos
             \<or> held_tokens (snd (evaluate_held_tokens_for_sale env tok p whale s)) tok
                  = Some (raise_max pos p))
            \<and> real_trades (snd (evaluate_held_tokens_for_sale env tok p whale s)) = real_trades s
            \<and> simulation_results (snd (evaluate_held_tokens_for_sale env tok p whale s)) =
                simulation_results s)
       \<and> (emitted_reason (fst (evaluate_held_tokens_for_sale env tok p whale s)) = None \<longrightarrow>
            held_tokens (snd (evaluate_held_tokens_for_sale env tok p whale s)) tok
              = Some (raise_max pos p)
            \<and> real_trades (snd (evaluate_held_tokens_for_sale env tok p whale s)) = real_trades s
            \<and> simulation_results (snd (evaluate_held_tokens_for_sale env tok p whale s)) =
                simulation_results s)
       \<and> (k \<noteq> tok \<longrightarrow>
            held_tokens (snd (evaluate_held_tokens_for_sale env tok p whale s)) k = held_tokens s k)"
proof -
  have A: "(emitted_reason (fst (evaluate_held_tokens_for_sale env tok p whale s)) = Some TakeProfit
            \<longleftrightarrow> p / buy_price pos \<ge> sell_multiplier s)
       \<and> (\<not> p / buy_price pos \<ge> sell_multiplier s \<longrightarrow>
            (emitted_reason (fst (evaluate_held_tokens_for_sale env tok p whale s)) = Some TrailingStop
               \<longleftrightarrow> p < max (max_price_seen pos) p * (1 - trailing_stop_percent s)))
       \<and> (emitted_reason (fst (evaluate_held_tokens_for_sale env tok p whale s)) = Some DumpSignal
            \<longleftrightarrow> \<not> p / buy_price pos \<ge> sell_multiplier s
               \<and> \<not> p < max (max_price_seen pos) p * (1 - trailing_stop_percent s)
               \<and> (whale \<or> creator_wallet_selling env tok (creator_wallets pos)))"
    unfolding evaluate_emitted[OF assms] by simp
  note B = evaluate_sale_sim_effect[OF assms, of env p whale]
  note C = evaluate_sale_real_effect[OF assms, of env p whale d]
  note D = evaluate_sale_failed_effect[OF assms, of env p whale]
  note E = evaluate_hold_effect[OF assms, of env p whale]
  note F = evaluate_other_tokens[of k tok env p whale s]
  from A B C D E F show ?thesis by blast
qed

theorem exit_policy_priority_witness:
  "held_tokens (ex_state False) ex_token = Some ex_position \<and> buy_price ex_position \<noteq> 0
   \<and> emitted_reason (fst (evaluate_held_tokens_for_sale ex_sale_env ex_token (152/100) True (ex_state False)))
       = Some TrailingStop
   \<and> emitted_reason (fst (evaluate_held_tokens_for_sale ex_sale_env ex_token (205/100) True (ex_state False)))
       = Some TakeProfit
   \<and> emitted_reason (fst (evaluate_held_tokens_for_sale ex_sale_env ex_token (17/10) True (ex_state False)))
       = Some DumpSignal
   \<and> \<not> simulation_mode (ex_state False)
   \<and> sell_reply ex_sale_env = Some \<lparr>sell_success = True, sell_price_sol = Some 3\<rparr>
   \<and> held_tokens (snd (evaluate_held_tokens_for_sale ex_sale_env ex_token (152/100) True (ex_state False)))
        ex_token = None
   \<and> real_trades (snd (evaluate_held_tokens_for_sale ex_sale_env ex_token (152/100) True (ex_state False)))
        = [\<lparr>token = ex_token, price = 3, action = ''sell'', timestamp = 100\<rparr>]
   \<and> simulation_mode (ex_state True)
   \<and> held_tokens (snd (evaluate_held_tokens_for_sale ex_sale_env ex_token (152/100) True (ex_state True)))
        ex_token = None
   \<and> simulation_results (snd (evaluate_held_tokens_for_sale ex_sale_env ex_token (152/100) True (ex_state True)))
        = [\<lparr>token = ex_token, price = 2, action = ''sell'', timestamp = 100\<rparr>]
   \<and> sell_reply (ex_sale_env\<lparr>sell_reply := None\<rparr>) = None
   \<and> held_tokens (snd (evaluate_held_tokens_for_sale (ex_sale_env\<lparr>sell_reply := None\<rparr>) ex_token
          (152/100) True (ex_state False))) ex_token \<noteq> None
   \<and> real_trades (snd (evaluate_held_tokens_for_sale (ex_sale_env\<lparr>sell_reply := None\<rparr>) ex_token
          (152/100) True (ex_state False))) = []
   \<and> emitted_reason (fst (evaluate_held_tokens_for_sale ex_sale_env ex_token (17/10) False (ex_state False)))
       = None
   \<and> held_tokens (snd (evaluate_held_tokens_for_sale ex_sale_env ex_token (17/10) False (ex_state False)))
        ex_token = Some (raise_max ex_position (17/10))
   \<and> ''Other'' \<noteq> ex_token
   \<and> held_tokens (snd (evaluate_held_tokens_for_sale ex_sale_env ex_token (152/100) True (ex_state False)))
        ''Other'' = None"
proof -
  let ?failing = "ex_sale_env\<lparr>sell_reply := None\<rparr>"
  have h: "held_tokens (ex_state sim) ex_token = Some ex_position" for sim
    by (rule ex_state_facts)
  have nz: "buy_price ex_position \<noteq> 0" by (simp add: ex_state_facts)
  have r: "sell_reply ex_sale_env = Some \<lparr>sell_success = True, sell_price_sol = Some 3\<rparr>"
    by (simp add: ex_sale_env_def)
  have t: "real_trades (ex_state False) = []" by (simp add: ex_state_def init_decision_module_def)
  have o: "''Other'' \<noteq> ex_token" "held_tokens (ex_state False) ''Other'' = None"
    by (simp_all add: ex_token_def ex_state_def)
  have cs: "\<not> creator_wallet_selling ex_sale_env ex_token [''CreatorW'']"
    by (simp add: creator_wallet_selling_def ex_sale_env_def)
  have e: "emitted_reason (fst (evaluate_held_tokens_for_sale env ex_token (152/100) True (ex_state sim)))
       = Some TrailingStop" for env sim
    using exit_policy_priority[OF h[of sim] nz, where env=env and p="152/100" and whale=True]
    by (simp add: ex_state_facts)
  have x: "held_tokens (snd (evaluate_held_tokens_for_sale ex_sale_env ex_token (152/100) True (ex_state False)))
        ex_token = None
     \<and> real_trades (snd (evaluate_held_tokens_for_sale ex_sale_env ex_token (152/100) True (ex_state False)))
        = [\<lparr>token = ex_token, price = 3, action = ''sell'', timestamp = 100\<rparr>]"
    using exit_policy_priority[OF h[of False] nz, where env=ex_sale_env and p="152/100" and whale=True and d="\<lparr>sell_success = True, sell_price_sol = Some 3\<rparr>"] e[of ex_sale_env False] r
    by (simp add: ex_state_facts ex_env_facts t)
  have y: "held_tokens (snd (evaluate_held_tokens_for_sale ex_sale_env ex_token (152/100) True (ex_state True)))
        ex_token = None
     \<and> simulation_results (snd (evaluate_held_tokens_for_sale ex_sale_env ex_token (152/100) True (ex_state True)))
        = [\<lparr>token = ex_token, price = 2, action = ''sell'', timestamp = 100\<rparr>]"
    using exit_policy_priority[OF h[of True] nz, where env=ex_sale_env and p="152/100" and whale=True] e[of ex_sale_env True]
    by (simp add: ex_state_facts ex_env_facts)
  have z: "held_tokens (snd (evaluate_held_tokens_for_sale ?failing ex_token (152/100) True (ex_state False)))
        ex_token \<noteq> None
     \<and> real_trades (snd (evaluate_held_tokens_for_sale ?failing ex_token (152/100) True (ex_state False))) = []"
    using exit_policy_priority[OF h[of False] nz, where env="?failing" and p="152/100" and whale=True] e[of "?failing" False]
    by (auto simp add: ex_state_facts t)
  have n: "emitted_reason (fst (evaluate_held_tokens_for_sale ex_sale_env ex_token (17/10) False (ex_state False)))
       = None"
    using cs by (simp add: evaluate_emitted[OF h[of False] nz] ex_state_facts)
  have w: "held_tokens (snd (evaluate_held_tokens_for_sale ex_sale_env ex_token (17/10) False (ex_state False)))
        ex_token = Some (raise_max ex_position (17/10))"
    using exit_policy_priority[OF h[of False] nz, where env=ex_sale_env and p="17/10" and whale=False] n by simp
  have k: "held_tokens (snd (evaluate_held_tokens_for_sale ex_sale_env ex_token (152/100) True (ex_state False)))
        ''Other'' = None"
    using exit_policy_priority[OF h[of False] nz, where env=ex_sale_env and p="152/100" and whale=True and k="''Other''"] o by simp
  have a: "emitted_reason (fst (evaluate_held_tokens_for_sale ex_sale_env ex_token (205/100) True (ex_state False)))
       = Some TakeProfit"
    using exit_policy_priority[OF h[of False] nz, where env=ex_sale_env and p="205/100" and whale=True]
    by (simp add: ex_state_facts)
  have b: "emitted_reason (fst (evaluate_held_tokens_for_sale ex_sale_env ex_token (17/10) True (ex_state False)))
       = Some DumpSignal"
    using exit_policy_priority[OF h[of False] nz, where env=ex_sale_env and p="17/10" and whale=True]
    by (simp add: ex_state_facts)
  from h[of False] nz e[of ex_sale_env False] a b r x y z n w o(1) k show ?thesis
    by (simp add: ex_state_facts)
qed

section \<open>C10: simulated sales are journaled at the take-profit price\<close>




section \<open>C5: learning trusted creators\<close>

text \<open>
  C5 says that a simulated take-profit sale within the hour puts the creators of the sold
  position into the creator cache and saves it. The code reads
  \<^verbatim>\<open>self.held_tokens[token_mint_address]\<close> for the buy time and the creators after
  \<^verbatim>\<open>_execute_sale\<close> has deleted that entry: in simulation mode a take-profit evaluation
  always ends in the caught \<^verbatim>\<open>KeyError\<close>, and neither the cache nor its saved copy changes.
\<close>

theorem simulated_take_profit_never_learns_creator:
  assumes "simulation_mode s" and "held_tokens s tok = Some pos" and "buy_price pos \<noteq> 0"
    and "sell_multiplier s \<le> p / buy_price pos"
  shows "fst (evaluate_held_tokens_for_sale env tok p w s) =
           EmittedThenRaised TakeProfit (Some (buy_price pos * sell_multiplier s)) KeyError
       \<and> successful_creator_cache (snd (evaluate_held_tokens_for_sale env tok p w s)) = successful_creator_cache s
       \<and> saved_creator_cache (snd (evaluate_held_tokens_for_sale env tok p w s)) = saved_creator_cache s"
  using evaluate_take_profit_sim[OF assms, of env w]
    evaluate_sim_caches[OF assms(1), of env tok p w] by (simp only: fst_conv simp_thms)

theorem simulated_take_profit_never_learns_creator_witness:
  "simulation_mode (ex_state True) \<and> held_tokens (ex_state True) ex_token = Some ex_position
   \<and> buy_price ex_position \<noteq> 0 \<and> sell_multiplier (ex_state True) \<le> (205/100) / buy_price ex_position
   \<and> now ex_sale_env - buy_timestamp ex_position < 3600
   \<and> creator_wallets ex_position = [''CreatorW'']
   \<and> fst (evaluate_held_tokens_for_sale ex_sale_env ex_token (205/100) False (ex_state True)) =
        EmittedThenRaised TakeProfit (Some 2) KeyError
   \<and> successful_creator_cache (snd (evaluate_held_tokens_for_sale ex_sale_env ex_token (205/100) False (ex_state True)))
        = Some []
   \<and> saved_creator_cache (snd (evaluate_held_tokens_for_sale ex_sale_env ex_token (205/100) False (ex_state True)))
        = []"
proof -
  have sim: "simulation_mode (ex_state True)" by (simp add: ex_state_facts)
  have h: "held_tokens (ex_state True) ex_token = Some ex_position" by (rule ex_state_facts)
  have nz: "buy_price ex_position \<noteq> 0" by (simp add: ex_state_facts)
  have tp: "sell_multiplier (ex_state True) \<le> (205/100) / buy_price ex_position"
    by (simp add: ex_state_facts)
  show ?thesis
    using simulated_take_profit_never_learns_creator[OF sim h nz tp, of ex_sale_env False] sim h
    by (simp add: ex_state_facts ex_env_facts)
qed

section \<open>Lemmas on the running maximum over runs\<close>

lemma set_param_held:
  "held_tokens (set_param k v s) = held_tokens s"
  by (simp add: set_param_def)

lemma step_positions_ok:
  assumes "positions_ok s"
  shows "positions_ok (step e s)"
proof (cases e)
  case (SetCapital a)
  with assms show ?thesis by (simp add: positions_ok_def set_initial_capital_def)
next
  case (SetParam k v)
  with assms show ?thesis by (simp add: positions_ok_def set_param_held)
next
  case (Candidate env tok p)
  show ?thesis unfolding positions_ok_def
  proof (intro allI impI)
    fix k pos
    assume "held_tokens (step e s) k = Some pos"
    then have "held_tokens (snd (process_new_token_candidate env tok p s)) k = Some pos"
      using Candidate by simp
    from candidate_position[OF this] assms show "buy_price pos \<le> max_price_seen pos"
      by (auto simp: positions_ok_def max_price_seen_def)
  qed
next
  case (PriceUpdate u)
  show ?thesis unfolding positions_ok_def
  proof (intro allI impI)
    fix k pos'
    assume "held_tokens (step e s) k = Some pos'"
    then have "held_tokens (snd (evaluate_held_tokens_for_sale (pu_env u) (pu_token u) (pu_price u)
                 (pu_whale u) s)) k = Some pos'"
      using PriceUpdate by simp
    from evaluate_position_step[OF this] obtain pos where
      "held_tokens s k = Some pos" "buy_price pos' = buy_price pos"
      "max_price_seen pos \<le> max_price_seen pos'" by blast
    with assms show "buy_price pos' \<le> max_price_seen pos'"
      by (fastforce simp: positions_ok_def)
  qed
qed

lemma run_positions_ok:
  "positions_ok s \<Longrightarrow> positions_ok (run evs s)"
  by (induction evs arbitrary: s) (simp_all add: step_positions_ok)

lemma init_positions_ok:
  "positions_ok (init_decision_module b sm t sim)"
  by (simp add: positions_ok_def init_decision_module_def)

lemma ex_updates_result:
  "held_tokens (evaluate_all ex_updates (ex_state False)) ex_token =
     Some (ex_position\<lparr>max_price := Some (19/10)\<rparr>)"
proof -
  have h: "held_tokens (ex_state False) ex_token = Some ex_position" by (rule ex_state_facts)
  have nz: "buy_price ex_position \<noteq> 0" by (simp add: ex_state_facts)
  have s1: "snd (evaluate_held_tokens_for_sale ex_sale_env ex_token (19/10) False (ex_state False)) =
        (ex_state False)\<lparr>held_tokens := (held_tokens (ex_state False))(ex_token \<mapsto> raise_max ex_position (19/10))\<rparr>"
    by (subst evaluate_below_take_profit[OF h nz])
       (simp_all add: ex_state_facts raise_max_props creator_wallet_selling_def ex_sale_env_def)
  let ?s1 = "(ex_state False)\<lparr>held_tokens := (held_tokens (ex_state False))(ex_token \<mapsto> raise_max ex_position (19/10))\<rparr>"
  have h1: "held_tokens ?s1 ex_token = Some (raise_max ex_position (19/10))" by simp
  have nz1: "buy_price (raise_max ex_position (19/10)) \<noteq> 0" by (simp add: raise_max_props ex_state_facts)
  have s2: "snd (evaluate_held_tokens_for_sale ex_sale_env ex_token (17/10) False ?s1) =
        ?s1\<lparr>held_tokens := (held_tokens ?s1)(ex_token \<mapsto> raise_max (raise_max ex_position (19/10)) (17/10))\<rparr>"
    by (subst evaluate_below_take_profit[OF h1 nz1])
       (simp_all add: ex_state_facts raise_max_props creator_wallet_selling_def ex_sale_env_def)
  show ?thesis
    by (simp add: ex_updates_def s1 s2)
       (simp add: raise_max_def max_price_seen_def ex_position_def)
qed

lemma ex_scanner_buys:
  "fst (process_new_token_candidate (ex_buy_env Unreachable) ''NewMint'' 0 (ex_state True)) = SimulatedBuy"
  by (simp add: process_new_token_candidate_def ex_state_facts)

section \<open>C6: the running maximum of a position\<close>

text \<open>
  C6. Over any sequence of exit evaluations, a position that is still held afterwards was held
  before with the same buy price, and its running maximum (the buy price until the first
  evaluation stores one) has not decreased. A position created by the entry procedure starts
  with the running maximum equal to the buy price. So from the construction of the engine on,
  over every run of parameter writes, candidates and price updates, every held position has a
  running maximum of at least its buy price.
\<close>

theorem max_price_seen_nondecreasing:
  "(held_tokens (evaluate_all us s) k = Some pos' \<longrightarrow>
      (\<exists>pos. held_tokens s k = Some pos \<and> buy_price pos' = buy_price pos
            \<and> max_price_seen pos \<le> max_price_seen pos'))
   \<and> (held_tokens (snd (process_new_token_candidate benv tok p s)) k = Some pos'' \<longrightarrow>
        held_tokens s k = Some pos'' \<or> max_price_seen pos'' = buy_price pos'')
   \<and> positions_ok (init_decision_module b sm t sim)
   \<and> (positions_ok s \<longrightarrow> positions_ok (run evs s))"
proof (intro conjI impI)
  assume "held_tokens (evaluate_all us s) k = Some pos'"
  then show "\<exists>pos. held_tokens s k = Some pos \<and> buy_price pos' = buy_price pos
            \<and> max_price_seen pos \<le> max_price_seen pos'"
    by (rule evaluate_all_position)
next
  assume "held_tokens (snd (process_new_token_candidate benv tok p s)) k = Some pos''"
  from candidate_position[OF this]
  show "held_tokens s k = Some pos'' \<or> max_price_seen pos'' = buy_price pos''"
    by (auto simp: max_price_seen_def)
next
  show "positions_ok (init_decision_module b sm t sim)" by (rule init_positions_ok)
next
  assume "positions_ok s"
  then show "positions_ok (run evs s)" by (rule run_positions_ok)
qed

theorem max_price_seen_nondecreasing_witness:
  "held_tokens (evaluate_all ex_updates (ex_state False)) ex_token = Some (ex_position\<lparr>max_price := Some (19/10)\<rparr>)
   \<and> held_tokens (ex_state False) ex_token = Some ex_position
   \<and> max_price_seen ex_position \<le> max_price_seen (ex_position\<lparr>max_price := Some (19/10)\<rparr>)
   \<and> positions_ok (init_decision_module (1/10) 2 (15/100) True)
   \<and> positions_ok (run [Candidate (ex_buy_env Unreachable) ex_token 1]
                      (init_decision_module (1/10) 2 (15/100) True))"
  using max_price_seen_nondecreasing[where us=ex_updates and s="ex_state False" and k=ex_token
      and pos'="ex_position\<lparr>max_price := Some (19/10)\<rparr>"]
    max_price_seen_nondecreasing[where s="init_decision_module (1/10) 2 (15/100) True"
      and b="1/10" and sm=2 and t="15/100" and sim=True
      and evs="[Candidate (ex_buy_env Unreachable) ex_token 1]"]
    ex_updates_result
  by (simp add: ex_state_facts)

section \<open>C9: positions bought at price 0\<close>

text \<open>
  C9. The pair scanner hands every candidate over with the price 0, so a position that the
  hand-over creates has the buy price 0. For a held position with buy price 0, every exit
  evaluation stops at the division of the profit multiplier with the caught
  \<^verbatim>\<open>ZeroDivisionError\<close> and leaves the engine as it was: no exit rule is evaluated, and
  over any sequence of price updates for that token nothing is sold.
\<close>

theorem zero_buy_price_never_evaluated:
  "(process_new_pool f = Forwarded m p \<longrightarrow> p = 0)
   \<and> (process_new_pool f = Forwarded m p \<longrightarrow>
        fst (process_new_token_candidate benv m p s) \<in> {SimulatedBuy, TrustedBuy, BuyExecuted} \<longrightarrow>
        (\<exists>pos. held_tokens (scanner_dispatch f benv s) m = Some pos \<and> buy_price pos = 0))
   \<and> (held_tokens s tok = Some pos \<longrightarrow> buy_price pos = 0 \<longrightarrow>
        evaluate_held_tokens_for_sale env tok q w s = (Raised ZeroDivisionError, s))
   \<and> (held_tokens s tok = Some pos \<longrightarrow> buy_price pos = 0 \<longrightarrow> (\<forall>u\<in>set us. pu_token u = tok) \<longrightarrow>
        evaluate_all us s = s)"
proof (intro conjI impI)
  assume "process_new_pool f = Forwarded m p"
  then show "p = 0" by (rule pool_forwards_zero)
next
  assume f: "process_new_pool f = Forwarded m p"
    and b: "fst (process_new_token_candidate benv m p s) \<in> {SimulatedBuy, TrustedBuy, BuyExecuted}"
  from pool_forwards_zero[OF f] candidate_bought[OF b] f
  show "\<exists>pos. held_tokens (scanner_dispatch f benv s) m = Some pos \<and> buy_price pos = 0"
    by (auto simp: scanner_dispatch_def)
next
  assume "held_tokens s tok = Some pos" "buy_price pos = 0"
  then show "evaluate_held_tokens_for_sale env tok q w s = (Raised ZeroDivisionError, s)"
    by (rule evaluate_zero_buy_price)
next
  assume "held_tokens s tok = Some pos" "buy_price pos = 0" "\<forall>u\<in>set us. pu_token u = tok"
  then show "evaluate_all us s = s" by (rule evaluate_all_zero)
qed

theorem zero_buy_price_never_evaluated_witness:
  "process_new_pool (Tx ex_pool_tx) = Forwarded ''NewMint'' 0
   \<and> fst (process_new_token_candidate (ex_buy_env Unreachable) ''NewMint'' 0 (ex_state True))
        \<in> {SimulatedBuy, TrustedBuy, BuyExecuted}
   \<and> (\<exists>pos. held_tokens (scanner_dispatch (Tx ex_pool_tx) (ex_buy_env Unreachable) (ex_state True)) ''NewMint''
          = Some pos \<and> buy_price pos = 0
        \<and> evaluate_held_tokens_for_sale ex_sale_env ''NewMint'' 5 True
             (scanner_dispatch (Tx ex_pool_tx) (ex_buy_env Unreachable) (ex_state True))
           = (Raised ZeroDivisionError,
              scanner_dispatch (Tx ex_pool_tx) (ex_buy_env Unreachable) (ex_state True)))"
proof -
  have f: "process_new_pool (Tx ex_pool_tx) = Forwarded ''NewMint'' 0" by (rule ex_pool_forwarded)
  have b: "fst (process_new_token_candidate (ex_buy_env Unreachable) ''NewMint'' 0 (ex_state True))
             \<in> {SimulatedBuy, TrustedBuy, BuyExecuted}"
    by (simp add: ex_scanner_buys)
  let ?s = "scanner_dispatch (Tx ex_pool_tx) (ex_buy_env Unreachable) (ex_state True)"
  from zero_buy_price_never_evaluated[where f="Tx ex_pool_tx" and m="''NewMint''" and p=0
         and benv="ex_buy_env Unreachable" and s="ex_state True"] f b
  obtain pos where h: "held_tokens ?s ''NewMint'' = Some pos" and z: "buy_price pos = 0"
    by blast
  from zero_buy_price_never_evaluated[where s="?s" and tok="''NewMint''" and pos=pos
         and env=ex_sale_env and q=5 and w=True] h z
  have "evaluate_held_tokens_for_sale ex_sale_env ''NewMint'' 5 True ?s = (Raised ZeroDivisionError, ?s)"
    by blast
  with f b h z show ?thesis by blast
qed

section \<open>Lemmas on the safety probes\<close>

lemma honeypot_result_failed:
  "oracle_failed resp \<Longrightarrow> honeypot_result resp = default_honeypot_info"
  by (auto simp: oracle_failed_def honeypot_result_def split: oracle_response.splits oracle_body.splits)

lemma check_honeypot_miss:
  "honeypot_cache s tok = None \<Longrightarrow>
   fst (check_token_honeypot_and_taxes t resp tok s) = honeypot_result resp"
  by (simp add: check_token_honeypot_and_taxes_def Let_def)

lemma admission_default_report:
  "admission_reject env tok default_honeypot_info True True s
     \<in> {None, Some InsufficientBalance, Some InsufficientCapital, Some AlreadyHeld}"
  by (simp add: admission_reject_def default_honeypot_info_def Let_def)

lemma admission_needs_probes:
  "\<not> hl \<or> \<not> sl \<Longrightarrow> admission_reject env tok info hl sl s \<noteq> None"
  by (auto simp: admission_reject_def Let_def)

lemma exploration_rejected:
  assumes "\<not> check_token_liquidity (liquidity_quote env) \<or> \<not> check_token_sellable (sellable_quote env)"
  shows "fst (exploration_buy env tok p s) \<notin> {SimulatedBuy, TrustedBuy, BuyExecuted}
       \<and> held_tokens (snd (exploration_buy env tok p s)) = held_tokens s
       \<and> real_trades (snd (exploration_buy env tok p s)) = real_trades s"
proof -
  obtain info s1 where c: "check_token_honeypot_and_taxes (b_now env) (oracle_reply env) tok s = (info, s1)"
    by (cases "check_token_honeypot_and_taxes (b_now env) (oracle_reply env) tok s")
  have f: "held_tokens s1 = held_tokens s" "real_trades s1 = real_trades s"
    using check_honeypot_frame[of "b_now env" "oracle_reply env" tok s] c by simp_all
  from admission_needs_probes[OF assms] obtain r where
    r: "admission_reject env tok info (check_token_liquidity (liquidity_quote env))
          (check_token_sellable (sellable_quote env)) s1 = Some r"
    by blast
  from admission_reject_not_bought[OF r] show ?thesis
    by (simp add: exploration_buy_def c Let_def r f)
qed

lemma candidate_exploration:
  "\<not> simulation_mode s \<Longrightarrow> start_time env \<noteq> 0 \<Longrightarrow> b_now env - start_time env < 3600 \<Longrightarrow>
   process_new_token_candidate env tok p s = exploration_buy env tok p s"
  by (simp add: process_new_token_candidate_def)

lemma ex_oracle_down_bought:
  "fst (process_new_token_candidate (ex_buy_env Unreachable) ex_token 1 ex_real_state) = BuyExecuted"
  by (simp add: process_new_token_candidate_def exploration_buy_def admission_reject_def
      check_token_honeypot_and_taxes_def honeypot_result_def Let_def default_honeypot_info_def
      ex_buy_env_def ex_real_state_def set_initial_capital_def init_decision_module_def
      check_token_liquidity_def check_token_sellable_def py_int_def out_amount_of_def digit_val_def tax_get_def)

section \<open>C3: errors of the safety probes\<close>

text \<open>
  C3 as stated fails: with the safety oracle unreachable and the two quotes answering, the
  candidate passes every admission rule and is bought.
\<close>

theorem oracle_unreachable_admitted_counterexample:
  "oracle_reply (ex_buy_env Unreachable) = Unreachable
   \<and> fst (process_new_token_candidate (ex_buy_env Unreachable) ex_token 1 ex_real_state) = BuyExecuted
   \<and> held_tokens (snd (process_new_token_candidate (ex_buy_env Unreachable) ex_token 1 ex_real_state)) ex_token
        \<noteq> None
   \<and> held_tokens ex_real_state ex_token = None"
  using candidate_bought[of "ex_buy_env Unreachable" ex_token 1 ex_real_state]
  by (auto simp: ex_oracle_down_bought)
     (simp_all add: ex_buy_env_def ex_real_state_def set_initial_capital_def init_decision_module_def)

text \<open>
  C3, amended. The probes return a value on every input (all exceptions are caught; the
  functions are total). When the oracle sub-check errors, the oracle part of the report is
  the default one (not a honeypot, no taxes, market cap 0, no anti-bot), also behind an empty
  cache; that report triggers none of the oracle-based admission rules. When the liquidity
  or the sellability quote errors, the flag is false, and in real mode during the first hour
  a candidate with a false flag is not bought.
\<close>

theorem probe_errors_and_admission:
  "(oracle_failed resp \<longrightarrow> honeypot_result resp = default_honeypot_info)
   \<and> (oracle_failed resp \<and> honeypot_cache s tok = None \<longrightarrow>
        fst (check_token_honeypot_and_taxes t resp tok s) = default_honeypot_info)
   \<and> admission_reject env tok default_honeypot_info True True s
        \<in> {None, Some InsufficientBalance, Some InsufficientCapital, Some AlreadyHeld}
   \<and> \<not> check_token_liquidity QuoteError \<and> \<not> check_token_liquidity QuoteNull
   \<and> \<not> check_token_sellable QuoteError \<and> \<not> check_token_sellable QuoteNull
   \<and> (\<not> simulation_mode s \<and> start_time env \<noteq> 0 \<and> b_now env - start_time env < 3600 \<and>
       (\<not> check_token_liquidity (liquidity_quote env) \<or> \<not> check_token_sellable (sellable_quote env)) \<longrightarrow>
        fst (process_new_token_candidate env tok p s) \<notin> {SimulatedBuy, TrustedBuy, BuyExecuted}
        \<and> held_tokens (snd (process_new_token_candidate env tok p s)) = held_tokens s
        \<and> real_trades (snd (process_new_token_candidate env tok p s)) = real_trades s)"
proof -
  have "fst (process_new_token_candidate env tok p s) \<notin> {SimulatedBuy, TrustedBuy, BuyExecuted}
        \<and> held_tokens (snd (process_new_token_candidate env tok p s)) = held_tokens s
        \<and> real_trades (snd (process_new_token_candidate env tok p s)) = real_trades s"
    if "\<not> simulation_mode s" "start_time env \<noteq> 0" "b_now env - start_time env < 3600"
      "\<not> check_token_liquidity (liquidity_quote env) \<or> \<not> check_token_sellable (sellable_quote env)"
    unfolding candidate_exploration[OF that(1,2,3)] using that(4) by (rule exploration_rejected)
  then show ?thesis
    using admission_default_report[of env tok s]
    by (simp add: honeypot_result_failed check_honeypot_miss
          check_token_liquidity_def check_token_sellable_def)
qed

theorem probe_errors_and_admission_witness:
  "oracle_failed (Http 503 Malformed) \<and> honeypot_cache ex_real_state ex_token = None
   \<and> fst (check_token_honeypot_and_taxes 100 (Http 503 Malformed) ex_token ex_real_state) = default_honeypot_info
   \<and> \<not> simulation_mode ex_real_state
   \<and> start_time ((ex_buy_env Unreachable)\<lparr>liquidity_quote := QuoteError\<rparr>) \<noteq> 0
   \<and> b_now ((ex_buy_env Unreachable)\<lparr>liquidity_quote := QuoteError\<rparr>)
        - start_time ((ex_buy_env Unreachable)\<lparr>liquidity_quote := QuoteError\<rparr>) < 3600
   \<and> \<not> check_token_liquidity (liquidity_quote ((ex_buy_env Unreachable)\<lparr>liquidity_quote := QuoteError\<rparr>))
   \<and> fst (process_new_token_candidate ((ex_buy_env Unreachable)\<lparr>liquidity_quote := QuoteError\<rparr>)
        ex_token 1 ex_real_state) \<notin> {SimulatedBuy, TrustedBuy, BuyExecuted}
   \<and> held_tokens (snd (process_new_token_candidate ((ex_buy_env Unreachable)\<lparr>liquidity_quote := QuoteError\<rparr>)
        ex_token 1 ex_real_state)) = held_tokens ex_real_state"
  using probe_errors_and_admission[where resp="Http 503 Malformed" and s=ex_real_state and tok=ex_token
      and t=100 and env="(ex_buy_env Unreachable)\<lparr>liquidity_quote := QuoteError\<rparr>" and p=1]
  by (simp add: oracle_failed_def check_token_liquidity_def ex_real_state_def set_initial_capital_def
      init_decision_module_def ex_buy_env_def)

section \<open>Lemmas on the pair scanner\<close>

lemma str_contains_sublist:
  "str_contains sub str \<longleftrightarrow> sublist sub str"
  by (induction str) (simp_all add: sublist_Cons_right)

lemma str_contains_iff:
  "str_contains sub str \<longleftrightarrow> (\<exists>pre suf. str = pre @ sub @ suf)"
  by (simp add: str_contains_sublist sublist_def)

lemma handle_notification_well_formed:
  assumes "n_value n = Dict v" "n_method n = Some ''logsNotification''" "v_signature v = Some sg" "sg \<noteq> []"
  shows "handle_notification n = Some sg \<longleftrightarrow>
         (\<exists>line\<in>set (logs_of (v_logs v)). str_contains ''Instruction: InitializeAccount'' line)"
  using assms by (simp add: handle_notification_def list_ex_iff)

lemma handle_notification_only:
  assumes "handle_notification n = Some sg"
  shows "\<exists>v. n_value n = Dict v \<and> v_signature v = Some sg \<and>
         (\<exists>line\<in>set (logs_of (v_logs v)). str_contains ''Instruction: InitializeAccount'' line)"
  using assms
  by (auto simp: handle_notification_def list_ex_iff split: notif_value.splits if_splits option.splits)

lemma scan_forwarded:
  "scan_instructions ixs = Forwarded m p \<Longrightarrow>
   \<exists>ix_data accounts ix_data_bytes.
      PartiallyDecoded RAYDIUM_LP_V4 ix_data accounts \<in> set ixs
      \<and> b58decode ix_data = Inr ix_data_bytes
      \<and> prefix initialize2_discriminant ix_data_bytes
      \<and> 9 < length accounts
      \<and> ((accounts ! 8 = SOL_MINT \<and> m = accounts ! 9)
          \<or> (accounts ! 8 \<noteq> SOL_MINT \<and> accounts ! 9 = SOL_MINT \<and> m = accounts ! 8))"
proof (induction ixs rule: scan_instructions.induct)
  case 1
  then show ?case by simp
next
  case (2 pid ixs)
  then show ?case by simp
next
  case (3 pid ix_data accounts ixs)
  show ?case
  proof (cases "b58decode ix_data")
    case (Inl e)
    with 3 show ?thesis by simp
  next
    case (Inr bytes)
    show ?thesis
    proof (cases "pid = RAYDIUM_LP_V4 \<and> prefix initialize2_discriminant bytes")
      case True
      with 3(2) Inr have "9 < length accounts
        \<and> ((accounts ! 8 = SOL_MINT \<and> m = accounts ! 9)
          \<or> (accounts ! 8 \<noteq> SOL_MINT \<and> accounts ! 9 = SOL_MINT \<and> m = accounts ! 8))"
        by (simp add: Let_def split: if_splits)
      with True Inr show ?thesis by fastforce
    next
      case False
      with 3(2) Inr have "scan_instructions ixs = Forwarded m p" by simp
      from 3(1)[OF Inr False this] show ?thesis by fastforce
    qed
  qed
qed

lemma ex_log_line_matches:
  "str_contains ''Instruction: InitializeAccount'' ''Program log: Instruction: InitializeAccount3''"
  by simp

lemma ex_log_line_other:
  "\<not> str_contains ''Instruction: InitializeAccount'' ''Program log: Instruction: Transfer''"
  by simp

section \<open>C8: filtering in pair discovery\<close>

text \<open>
  C8 as stated fails: the forwarded mint need not differ from the base mint. The scanner reads
  the mints at offsets 8 and 9 and forwards the second when the first is the base mint,
  without looking at the second. A pool instruction with the base mint at both offsets gets
  the base mint forwarded to the decision module.
\<close>

theorem base_mint_forwarded_counterexample:
  "process_new_pool (Tx ex_sol_pair_tx) = Forwarded SOL_MINT 0"
  by (simp add: process_new_pool_def ex_sol_pair_tx_def ex_discriminant_decodes
      initialize2_discriminant_def RAYDIUM_LP_V4_def)

text \<open>
  C8, amended. For a log notification that carries a signature, the signature is handed to the mint
  extraction exactly when some log line contains \<^verbatim>\<open>Instruction: InitializeAccount\<close>; nothing
  is handed over otherwise. A mint is forwarded to the decision module only when the fetched
  transaction lists the pool program among its account keys and has a top-level instruction
  of that program whose decoded data starts with the \<^verbatim>\<open>initialize2\<close> discriminant; the
  forwarded mint is then the one at offset 9 when offset 8 holds the base mint, and the one at
  offset 8 when offset 9 holds the base mint and offset 8 does not. Whenever the two offsets
  hold different mints, the forwarded mint is not the base mint.
\<close>

theorem pair_discovery_filter:
  "(n_value n = Dict v \<and> n_method n = Some ''logsNotification'' \<and> v_signature v = Some sg \<and> sg \<noteq> [] \<longrightarrow>
      (handle_notification n = Some sg \<longleftrightarrow>
         (\<exists>line\<in>set (logs_of (v_logs v)). str_contains ''Instruction: InitializeAccount'' line)))
   \<and> (handle_notification n = Some sg' \<longrightarrow>
        (\<exists>v'. n_value n = Dict v' \<and> v_signature v' = Some sg' \<and>
          (\<exists>line\<in>set (logs_of (v_logs v')). str_contains ''Instruction: InitializeAccount'' line)))
   \<and> (str_contains sub str \<longleftrightarrow> (\<exists>pre suf. str = pre @ sub @ suf))
   \<and> (process_new_pool f = Forwarded m p \<longrightarrow>
        (\<exists>tx ix_data accounts ix_data_bytes.
           f = Tx tx \<and> RAYDIUM_LP_V4 \<in> set (account_keys tx)
           \<and> PartiallyDecoded RAYDIUM_LP_V4 ix_data accounts \<in> set (instructions tx)
           \<and> b58decode ix_data = Inr ix_data_bytes
           \<and> prefix initialize2_discriminant ix_data_bytes
           \<and> 9 < length accounts
           \<and> ((accounts ! 8 = SOL_MINT \<and> m = accounts ! 9)
               \<or> (accounts ! 8 \<noteq> SOL_MINT \<and> accounts ! 9 = SOL_MINT \<and> m = accounts ! 8))
           \<and> (accounts ! 8 \<noteq> accounts ! 9 \<longrightarrow> m \<noteq> SOL_MINT)))"
proof (intro conjI impI)
  assume "n_value n = Dict v \<and> n_method n = Some ''logsNotification'' \<and> v_signature v = Some sg \<and> sg \<noteq> []"
  then show "handle_notification n = Some sg \<longleftrightarrow>
         (\<exists>line\<in>set (logs_of (v_logs v)). str_contains ''Instruction: InitializeAccount'' line)"
    using handle_notification_well_formed by blast
next
  assume "handle_notification n = Some sg'"
  then show "\<exists>v'. n_value n = Dict v' \<and> v_signature v' = Some sg' \<and>
          (\<exists>line\<in>set (logs_of (v_logs v')). str_contains ''Instruction: InitializeAccount'' line)"
    by (rule handle_notification_only)
next
  show "str_contains sub str \<longleftrightarrow> (\<exists>pre suf. str = pre @ sub @ suf)" by (rule str_contains_iff)
next
  assume a: "process_new_pool f = Forwarded m p"
  then obtain tx where tx: "f = Tx tx" and k: "RAYDIUM_LP_V4 \<in> set (account_keys tx)"
    and sc: "scan_instructions (instructions tx) = Forwarded m p"
    by (auto simp: process_new_pool_def list_ex_iff split: fetch_result.splits if_splits)
  from scan_forwarded[OF sc] obtain ix_data accounts ix_data_bytes where
    r: "PartiallyDecoded RAYDIUM_LP_V4 ix_data accounts \<in> set (instructions tx)"
      "b58decode ix_data = Inr ix_data_bytes" "prefix initialize2_discriminant ix_data_bytes"
      "9 < length accounts"
      "(accounts ! 8 = SOL_MINT \<and> m = accounts ! 9)
          \<or> (accounts ! 8 \<noteq> SOL_MINT \<and> accounts ! 9 = SOL_MINT \<and> m = accounts ! 8)"
    by blast
  from r(5) have "accounts ! 8 \<noteq> accounts ! 9 \<longrightarrow> m \<noteq> SOL_MINT" by auto
  with tx k r show "\<exists>tx ix_data accounts ix_data_bytes.
           f = Tx tx \<and> RAYDIUM_LP_V4 \<in> set (account_keys tx)
           \<and> PartiallyDecoded RAYDIUM_LP_V4 ix_data accounts \<in> set (instructions tx)
           \<and> b58decode ix_data = Inr ix_data_bytes
           \<and> prefix initialize2_discriminant ix_data_bytes
           \<and> 9 < length accounts
           \<and> ((accounts ! 8 = SOL_MINT \<and> m = accounts ! 9)
               \<or> (accounts ! 8 \<noteq> SOL_MINT \<and> accounts ! 9 = SOL_MINT \<and> m = accounts ! 8))
           \<and> (accounts ! 8 \<noteq> accounts ! 9 \<longrightarrow> m \<noteq> SOL_MINT)"
    by blast
qed

theorem pair_discovery_filter_witness:
  "handle_notification (ex_notification [''Program log: Instruction: Transfer'',
        ''Program log: Instruction: InitializeAccount3'']) = Some ''5sigABC''
   \<and> handle_notification (ex_notification [''Program log: Instruction: Transfer'']) = None
   \<and> process_new_pool (Tx ex_pool_tx) = Forwarded ''NewMint'' 0
   \<and> ''NewMint'' \<noteq> SOL_MINT"
proof -
  let ?n1 = "ex_notification [''Program log: Instruction: Transfer'', ''Program log: Instruction: InitializeAccount3'']"
  let ?n2 = "ex_notification [''Program log: Instruction: Transfer'']"
  have a: "handle_notification ?n1 = Some ''5sigABC''"
    using pair_discovery_filter[where n="?n1" and sg="''5sigABC''"
        and v="\<lparr>v_signature = Some ''5sigABC'', v_logs = LogsList [''Program log: Instruction: Transfer'',
                  ''Program log: Instruction: InitializeAccount3'']\<rparr>"]
      ex_log_line_matches
    by (simp add: ex_notification_def logs_of_def)
  have b: "handle_notification ?n2 = None"
    using pair_discovery_filter[where n="?n2" and sg="''5sigABC''"
        and v="\<lparr>v_signature = Some ''5sigABC'', v_logs = LogsList [''Program log: Instruction: Transfer'']\<rparr>"]
      ex_log_line_other
    by (simp add: ex_notification_def logs_of_def handle_notification_def)
  have c: "process_new_pool (Tx ex_pool_tx) = Forwarded ''NewMint'' 0" by (rule ex_pool_forwarded)
  have d: "''NewMint'' \<noteq> SOL_MINT" by (simp add: SOL_MINT_def)
  from a b c d show ?thesis by simp
qed

section \<open>Lemmas on the controller\<close>

lemma switch_profile_fields:
  "buy_amount_sol (snd (switch_profile c)) =
     max 0.01 (buy_amount_sol (snd c) *
        buy_factor (strategy_profiles ! ((current_profile (fst c) + 1) mod length strategy_profiles)))"
  "sell_multiplier (snd (switch_profile c)) =
     min 2.5 (max 1.0 (sell_multiplier (snd c) +
        sell_add (strategy_profiles ! ((current_profile (fst c) + 1) mod length strategy_profiles))))"
  "best_params (fst (switch_profile c)) = best_params (fst c)"
  "freeze (fst (switch_profile c)) = freeze (fst c)"
  "drawdown (fst (switch_profile c)) = drawdown (fst c)"
  "winrate (fst (switch_profile c)) = winrate (fst c)"
  "avg_profit (fst (switch_profile c)) = avg_profit (fst c)"
  "map d_action (decision_log (fst (switch_profile c))) =
     map d_action (decision_log (fst c)) @ [''switch_profile'']"
  by (simp_all add: switch_profile_def case_prod_beta Let_def log_decision_def)

lemma dynamic_adjust_fields:
  "buy_amount_sol (snd (dynamic_adjust c)) =
     (if drawdown (fst c) > 0.2 then max 0.01 (buy_amount_sol (snd c) * 0.8)
      else if winrate (fst c) < 0.4 then max 0.01 (buy_amount_sol (snd c) * 0.9)
      else if winrate (fst c) > 0.7 \<and> avg_profit (fst c) > 0 then min 2.0 (buy_amount_sol (snd c) * 1.1)
      else buy_amount_sol (snd c))"
  "sell_multiplier (snd (dynamic_adjust c)) =
     (if drawdown (fst c) > 0.2 then min 2.5 (sell_multiplier (snd c) + 0.1)
      else sell_multiplier (snd c))"
  "best_params (fst (dynamic_adjust c)) = best_params (fst c)"
  "map d_action (decision_log (fst (dynamic_adjust c))) =
     map d_action (decision_log (fst c)) @ dynamic_action (fst c)"
  by (simp_all add: dynamic_adjust_def case_prod_beta Let_def log_decision_def dynamic_action_def)

lemma auto_tune_fields:
  "buy_amount_sol (snd (auto_tune u c)) = max 0.01 (buy_amount_sol (snd c) * u)"
  "sell_multiplier (snd (auto_tune u c)) = sell_multiplier (snd c)"
  "best_params (fst (auto_tune u c)) = best_params (fst c)"
  "map d_action (decision_log (fst (auto_tune u c))) =
     map d_action (decision_log (fst c)) @ [''auto_tune'']"
  by (simp_all add: auto_tune_def case_prod_beta Let_def log_decision_def)

lemma observe_fields:
  "snd (observe t trades c) = snd c"
  "best_params (fst (observe t trades c)) = best_params (fst c) \<or>
   best_params (fst (observe t trades c)) = Some (buy_amount_sol (snd c), sell_multiplier (snd c))"
  by (simp_all add: observe_def case_prod_beta Let_def)

lemma buy_sell_ok_shrink:
  assumes "buy_sell_ok strict b sl" and "0 < f" and "f \<le> 1" and "0 \<le> a"
  shows "buy_sell_ok strict (max 0.01 (b * f)) (min 2.5 (sl + a))"
proof -
  from assms have b0: "0 \<le> b" by (simp add: buy_sell_ok_def)
  from mult_left_mono[OF assms(3) b0] have bf: "b * f \<le> b" by simp
  have up: "b * f \<le> 2" if "strict"
    using bf that assms(1) unfolding buy_sell_ok_def by linarith
  have lo: "0.01 \<le> max 0.01 (b * f)" by simp
  have hi: "max 0.01 (b * f) \<le> 2" if "strict" using up[OF that] by simp
  have sl: "1 \<le> min 2.5 (sl + a)" "min 2.5 (sl + a) \<le> 2.5"
    using assms(1,4) unfolding buy_sell_ok_def by (simp_all add: min_def)
  from lo hi sl show ?thesis unfolding buy_sell_ok_def by simp
qed

lemma dynamic_adjust_ok:
  assumes ok: "buy_sell_ok strict (buy_amount_sol (snd c)) (sell_multiplier (snd c))"
  shows "buy_sell_ok strict (buy_amount_sol (snd (dynamic_adjust c))) (sell_multiplier (snd (dynamic_adjust c)))"
  using ok buy_sell_ok_shrink[OF ok, of "0.8" "0.1"]
  by (auto simp: dynamic_adjust_fields buy_sell_ok_def max_def min_def)

lemma mutate_log:
  "map d_action (decision_log (fst (mutate g c))) =
     map d_action (decision_log (fst c)) @
       (if freeze (fst c) then []
        else (if r_profile g < 0.15 then [''switch_profile''] else [])
             @ dynamic_action (fst (if r_profile g < 0.15 then switch_profile c else c))
             @ (if r_mutate g < 0.1 then [''auto_tune''] else []))"
  by (simp add: mutate_def Let_def switch_profile_fields dynamic_adjust_fields auto_tune_fields)

lemma dynamic_action_switch:
  "dynamic_action (fst (switch_profile c)) = dynamic_action (fst c)"
  by (simp add: dynamic_action_def switch_profile_fields)

lemma mutate_actions_eq:
  "mutate_actions g c =
     (if freeze (fst c) then []
      else (if r_profile g < 0.15 then [''switch_profile''] else [])
           @ dynamic_action (fst c)
           @ (if r_mutate g < 0.1 then [''auto_tune''] else []))"
proof -
  have "mutate_actions g c =
          drop (length (map d_action (decision_log (fst c)))) (map d_action (decision_log (fst (mutate g c))))"
    by (simp add: mutate_actions_def drop_map)
  also have "\<dots> = (if freeze (fst c) then []
        else (if r_profile g < 0.15 then [''switch_profile''] else [])
             @ dynamic_action (fst (if r_profile g < 0.15 then switch_profile c else c))
             @ (if r_mutate g < 0.1 then [''auto_tune''] else []))"
    unfolding mutate_log by (simp only: append_eq_conv_conj drop_append length_map) simp
  finally show ?thesis by (simp add: dynamic_action_switch)
qed

lemma ex_stats:
  "compute_profit ex_trades = 1/2"
  "compute_drawdown ex_trades = 1/2"
  "fst (compute_stats ex_trades) = 1/2"
  "fst (snd (compute_stats ex_trades)) = 1/4"
  by (simp_all add: compute_profit_def compute_drawdown_def compute_stats_def ex_trades_def Let_def)

lemma observe_stats:
  "drawdown (fst (observe t trades c)) = compute_drawdown trades"
  "winrate (fst (observe t trades c)) = fst (compute_stats trades)"
  "avg_profit (fst (observe t trades c)) = fst (snd (compute_stats trades))"
  "sim_profit (fst (observe t trades c)) = compute_profit trades"
  "current_profile (fst (observe t trades c)) = current_profile (fst c)"
  by (simp_all add: observe_def case_prod_beta Let_def)

lemma observe_freeze:
  "freeze (fst (observe t trades c)) \<Longrightarrow>
     \<not> fst (compute_stats trades) < 0.6 \<and> \<not> compute_drawdown trades > 0.15"
  by (simp add: observe_def case_prod_beta Let_def split: if_splits)

lemma ex_observed:
  "\<not> freeze (fst (observe 0 ex_trades ex_controller))"
  "dynamic_action (fst (observe 0 ex_trades ex_controller)) = [''reduce_risk'']"
  "snd (observe 0 ex_trades ex_controller) = ex_state True"
  "current_profile (fst (observe 0 ex_trades ex_controller)) = 2"
proof -
  show "\<not> freeze (fst (observe 0 ex_trades ex_controller))"
    using observe_freeze[of 0 ex_trades ex_controller] by (auto simp: ex_stats)
  show "dynamic_action (fst (observe 0 ex_trades ex_controller)) = [''reduce_risk'']"
    by (simp add: ex_stats dynamic_action_def observe_stats)
  show "snd (observe 0 ex_trades ex_controller) = ex_state True"
    by (simp add: observe_fields ex_controller_def)
  show "current_profile (fst (observe 0 ex_trades ex_controller)) = 2"
    by (simp add: observe_stats ex_controller_def init_optimizer_def)
qed

text \<open>The three blocks of the rollback check, one by one.\<close>

lemma rollback_to_best_fired:
  assumes "best_params (fst c) = Some (bb, bs)"
    and "below_best_times (sim_profit (fst c)) (best_profit (fst c)) 0.5" and "\<not> freeze (fst c)"
  shows "buy_amount_sol (snd (rollback_to_best c)) = bb"
    and "sell_multiplier (snd (rollback_to_best c)) = bs"
  using assms by (simp_all add: rollback_to_best_def case_prod_beta Let_def)

lemma recovery_mode_fields:
  "buy_amount_sol (snd (recovery_mode c)) =
     (if loss_streak (fst c) \<ge> 3 \<and> \<not> freeze (fst c) then max 0.01 (buy_amount_sol (snd c) * 0.7)
      else buy_amount_sol (snd c))"
  "sell_multiplier (snd (recovery_mode c)) =
     (if loss_streak (fst c) \<ge> 3 \<and> \<not> freeze (fst c) then min 2.5 (sell_multiplier (snd c) + 0.2)
      else sell_multiplier (snd c))"
  by (simp_all add: recovery_mode_def case_prod_beta Let_def)

lemma recovery_mode_ok:
  assumes ok: "buy_sell_ok strict (buy_amount_sol (snd c)) (sell_multiplier (snd c))"
  shows "buy_sell_ok strict (buy_amount_sol (snd (recovery_mode c))) (sell_multiplier (snd (recovery_mode c)))"
  using ok buy_sell_ok_shrink[OF ok, of "0.7" "0.2"]
  by (simp add: recovery_mode_fields)

lemma switch_profile_bounds:
  "0.01 \<le> buy_amount_sol (snd (switch_profile c))"
  "1 \<le> sell_multiplier (snd (switch_profile c))"
  "sell_multiplier (snd (switch_profile c)) \<le> 2.5"
proof -
  show "0.01 \<le> buy_amount_sol (snd (switch_profile c))"
    unfolding switch_profile_fields(1) by (simp add: max_def)
  show "1 \<le> sell_multiplier (snd (switch_profile c))"
    unfolding switch_profile_fields(2) by (simp add: min_def max_def)
  show "sell_multiplier (snd (switch_profile c)) \<le> 2.5"
    unfolding switch_profile_fields(2) by (simp add: min_def max_def)
qed

section \<open>C7: the mutations of one tick\<close>

text \<open>
  C7 as stated fails: the profile rotation is an \<^verbatim>\<open>if\<close> of its own in front of the
  \<^verbatim>\<open>if / elif / elif\<close> chain. On a journal with a drawdown of 0.5 and a draw below 0.15, one
  tick journals the rotation and the drawdown guard, and both change the parameters
  (buy amount 0.1 to 0.08 to 0.064, sell multiplier 2.0 to 2.1 to 2.2).
\<close>

theorem rotation_with_drawdown_guard_counterexample:
  "\<not> freeze (fst (observe 0 ex_trades ex_controller))
   \<and> mutate_actions ex_rng (observe 0 ex_trades ex_controller) = [''switch_profile'', ''reduce_risk'']
   \<and> length (filter (\<lambda>a. a \<in> set [''switch_profile'', ''reduce_risk'', ''adjust_buy_amount'',
                                     ''increase_risk''])
                (mutate_actions ex_rng (observe 0 ex_trades ex_controller))) = 2
   \<and> buy_amount_sol (snd (observe 0 ex_trades ex_controller)) = 1/10
   \<and> buy_amount_sol (snd (mutate ex_rng (observe 0 ex_trades ex_controller))) = 64/1000
   \<and> sell_multiplier (snd (mutate ex_rng (observe 0 ex_trades ex_controller))) = 22/10"
proof -
  have a: "mutate_actions ex_rng (observe 0 ex_trades ex_controller) = [''switch_profile'', ''reduce_risk'']"
    by (simp add: mutate_actions_eq ex_observed ex_rng_def)
  have m: "mutate ex_rng (observe 0 ex_trades ex_controller) =
             dynamic_adjust (switch_profile (observe 0 ex_trades ex_controller))"
    by (simp add: mutate_def Let_def ex_observed ex_rng_def)
  have p: "buy_amount_sol (snd (observe 0 ex_trades ex_controller)) = 1/10"
    "sell_multiplier (snd (observe 0 ex_trades ex_controller)) = 2"
    by (simp_all add: ex_observed(3) ex_state_def init_decision_module_def)
  have sp: "buy_amount_sol (snd (switch_profile (observe 0 ex_trades ex_controller))) = 8/100"
    "sell_multiplier (snd (switch_profile (observe 0 ex_trades ex_controller))) = 21/10"
    by (simp_all add: switch_profile_fields(1,2) p ex_observed(4) strategy_profiles_def)
  have dd: "drawdown (fst (switch_profile (observe 0 ex_trades ex_controller))) = 1/2"
    by (simp add: switch_profile_fields(5) observe_stats(1) ex_stats)
  have b: "buy_amount_sol (snd (mutate ex_rng (observe 0 ex_trades ex_controller))) = 64/1000"
    "sell_multiplier (snd (mutate ex_rng (observe 0 ex_trades ex_controller))) = 22/10"
    unfolding m by (simp_all add: dynamic_adjust_fields(1,2) dd sp)
  show ?thesis using a b p by (simp add: ex_observed(1))
qed

text \<open>
  C7, amended. When the controller is not frozen, a tick journals, in this order, the
  profile rotation if its draw is below 0.15, at most one of the drawdown guard and the two
  win-rate adjustments (they are the branches of one chain), and the random mutation if its
  draw is below 0.1; when it is frozen, none of them.
\<close>

theorem at_most_one_dynamic_adjustment:
  "mutate_actions g c =
     (if freeze (fst c) then []
      else (if r_profile g < 0.15 then [''switch_profile''] else [])
           @ dynamic_action (fst c)
           @ (if r_mutate g < 0.1 then [''auto_tune''] else []))
   \<and> length (dynamic_action (fst c)) \<le> 1
   \<and> length (filter (\<lambda>a. a \<in> set [''reduce_risk'', ''adjust_buy_amount'', ''increase_risk''])
                (mutate_actions g c)) \<le> 1
   \<and> length (filter (\<lambda>a. a = ''switch_profile'') (mutate_actions g c)) \<le> 1"
  by (simp add: mutate_actions_eq dynamic_action_def)

theorem at_most_one_dynamic_adjustment_witness:
  "mutate_actions ex_rng (observe 0 ex_trades ex_controller) = [''switch_profile'', ''reduce_risk'']
   \<and> length (filter (\<lambda>a. a \<in> set [''reduce_risk'', ''adjust_buy_amount'', ''increase_risk''])
                (mutate_actions ex_rng (observe 0 ex_trades ex_controller))) = 1"
  using at_most_one_dynamic_adjustment[of ex_rng "observe 0 ex_trades ex_controller"]
  by (simp add: ex_observed ex_rng_def)

section \<open>C4: bounds on the engine parameters\<close>

text \<open>
  C4 as stated fails. \<^verbatim>\<open>set_param\<close> checks no range: a buy amount of 5.0 is stored as it
  is, and the state changes. The profile rotation has no upper clamp on the buy amount: from
  2.0 the profile with factor 1.2 gives 2.4. The random exploration has none either: from 2.0
  a draw of 1.05 gives 2.1. And the rollback writes the memorised best parameters as they were
  loaded: with 5.0 and 9.0 in memory the engine ends at 5.0 and 9.0.
\<close>

theorem parameter_range_counterexample:
  "params_in_range (ex_state True)
   \<and> buy_amount_sol (set_param ''buy_amount_sol'' 5 (ex_state True)) = 5
   \<and> \<not> params_in_range (set_param ''buy_amount_sol'' 5 (ex_state True))
   \<and> set_param ''buy_amount_sol'' 5 (ex_state True) \<noteq> ex_state True
   \<and> params_in_range ((ex_state True)\<lparr>buy_amount_sol := 2\<rparr>)
   \<and> buy_amount_sol (snd (switch_profile ((init_optimizer None None)\<lparr>current_profile := 0\<rparr>,
          (ex_state True)\<lparr>buy_amount_sol := 2\<rparr>))) = 24/10
   \<and> buy_amount_sol (snd (auto_tune (105/100) (init_optimizer None None,
          (ex_state True)\<lparr>buy_amount_sol := 2\<rparr>))) = 21/10
   \<and> buy_amount_sol (snd (rollback_to_best ex_rollback_controller)) = 5
   \<and> sell_multiplier (snd (rollback_to_best ex_rollback_controller)) = 9
   \<and> \<not> params_in_range (snd (rollback_to_best ex_rollback_controller))"
proof -
  have b: "buy_amount_sol (ex_state True) = 1/10"
    by (simp add: ex_state_def init_decision_module_def)
  have s: "buy_amount_sol (set_param ''buy_amount_sol'' 5 (ex_state True)) = 5"
    "sell_multiplier (set_param ''buy_amount_sol'' 5 (ex_state True)) = 2"
    by (simp_all add: set_param_def ex_state_facts)
  have n: "set_param ''buy_amount_sol'' 5 (ex_state True) \<noteq> ex_state True"
  proof
    assume "set_param ''buy_amount_sol'' 5 (ex_state True) = ex_state True"
    then have "buy_amount_sol (set_param ''buy_amount_sol'' 5 (ex_state True)) = buy_amount_sol (ex_state True)"
      by simp
    with s b show False by simp
  qed
  have r: "buy_amount_sol (snd (switch_profile ((init_optimizer None None)\<lparr>current_profile := 0\<rparr>,
          (ex_state True)\<lparr>buy_amount_sol := 2\<rparr>))) = 24/10"
    by (simp add: switch_profile_fields(1) strategy_profiles_def init_optimizer_def)
  have t: "buy_amount_sol (snd (auto_tune (105/100) (init_optimizer None None,
          (ex_state True)\<lparr>buy_amount_sol := 2\<rparr>))) = 21/10"
    by (simp add: auto_tune_fields(1))
  have k: "buy_amount_sol (snd (rollback_to_best ex_rollback_controller)) = 5"
    "sell_multiplier (snd (rollback_to_best ex_rollback_controller)) = 9"
    by (simp_all add: rollback_to_best_fired ex_rollback_controller_def init_optimizer_def
        below_best_times_def)
  from b s n r t k show ?thesis by (simp add: params_in_range_def buy_sell_ok_def ex_state_facts)
qed

text \<open>
  C4, amended. \<^verbatim>\<open>set_param\<close> stores the value it is given, for the buy amount and for the
  sell multiplier, whatever the value. Of the mutations of the controller, each taken on its
  own:
  the profile rotation leaves the buy amount at or above 0.01 and the sell multiplier within
  1.0 and 2.5, from any parameters;
  the chain of the drawdown guard and the win-rate adjustments leaves the buy amount within
  0.01 and 2.0 and the sell multiplier within 1.0 and 2.5 when they were there before;
  the random exploration leaves the buy amount at or above 0.01, from any parameters, and does
  not write the sell multiplier;
  the recovery leaves both parameters within their ranges when they were there before;
  the rollback, when it fires, writes the memorised best parameters as they are.
  No upper bound on the buy amount holds after a rotation or an exploration, and no bound at
  all after a rollback.
\<close>

theorem controller_bounds:
  "buy_amount_sol (set_param ''buy_amount_sol'' v s) = v
   \<and> sell_multiplier (set_param ''sell_multiplier'' v s) = v
   \<and> 0.01 \<le> buy_amount_sol (snd (switch_profile c))
   \<and> 1 \<le> sell_multiplier (snd (switch_profile c))
   \<and> sell_multiplier (snd (switch_profile c)) \<le> 2.5
   \<and> (params_in_range (snd c) \<longrightarrow> params_in_range (snd (dynamic_adjust c)))
   \<and> 0.01 \<le> buy_amount_sol (snd (auto_tune u c))
   \<and> sell_multiplier (snd (auto_tune u c)) = sell_multiplier (snd c)
   \<and> (params_in_range (snd c) \<longrightarrow> params_in_range (snd (recovery_mode c)))
   \<and> (best_params (fst c) = Some (bb, bs)
        \<and> below_best_times (sim_profit (fst c)) (best_profit (fst c)) 0.5 \<and> \<not> freeze (fst c) \<longrightarrow>
        buy_amount_sol (snd (rollback_to_best c)) = bb
        \<and> sell_multiplier (snd (rollback_to_best c)) = bs)"
proof -
  have a: "buy_amount_sol (set_param ''buy_amount_sol'' v s) = v"
    "sell_multiplier (set_param ''sell_multiplier'' v s) = v"
    by (simp_all add: set_param_def)
  have t: "0.01 \<le> buy_amount_sol (snd (auto_tune u c))"
    "sell_multiplier (snd (auto_tune u c)) = sell_multiplier (snd c)"
    by (simp_all add: auto_tune_fields(1,2))
  have r: "best_params (fst c) = Some (bb, bs)
        \<and> below_best_times (sim_profit (fst c)) (best_profit (fst c)) 0.5 \<and> \<not> freeze (fst c) \<longrightarrow>
        buy_amount_sol (snd (rollback_to_best c)) = bb
        \<and> sell_multiplier (snd (rollback_to_best c)) = bs"
    by (simp add: rollback_to_best_fired)
  from a t r switch_profile_bounds[of c] dynamic_adjust_ok[of True c] recovery_mode_ok[of True c]
  show ?thesis unfolding params_in_range_def by blast
qed

theorem controller_bounds_witness:
  "params_in_range (snd (observe 0 ex_trades ex_controller))
   \<and> dynamic_action (fst (observe 0 ex_trades ex_controller)) = [''reduce_risk'']
   \<and> params_in_range (snd (dynamic_adjust (observe 0 ex_trades ex_controller)))
   \<and> params_in_range (snd ex_losing_controller)
   \<and> loss_streak (fst ex_losing_controller) = 3
   \<and> \<not> freeze (fst ex_losing_controller)
   \<and> buy_amount_sol (snd (recovery_mode ex_losing_controller)) = 7/100
   \<and> sell_multiplier (snd (recovery_mode ex_losing_controller)) = 22/10
   \<and> params_in_range (snd (recovery_mode ex_losing_controller))
   \<and> best_params (fst ex_rollback_controller) = Some (5, 9)
   \<and> below_best_times (sim_profit (fst ex_rollback_controller))
        (best_profit (fst ex_rollback_controller)) 0.5
   \<and> \<not> freeze (fst ex_rollback_controller)
   \<and> buy_amount_sol (snd (rollback_to_best ex_rollback_controller)) = 5
   \<and> sell_multiplier (snd (rollback_to_best ex_rollback_controller)) = 9"
proof -
  have a: "params_in_range (snd (observe 0 ex_trades ex_controller))"
    by (simp add: ex_observed(3) params_in_range_def buy_sell_ok_def ex_state_def
        init_decision_module_def)
  have b: "params_in_range (snd ex_losing_controller)"
    by (simp add: ex_losing_controller_def params_in_range_def buy_sell_ok_def ex_state_def
        init_decision_module_def)
  have l: "loss_streak (fst ex_losing_controller) = 3" "\<not> freeze (fst ex_losing_controller)"
    by (simp_all add: ex_losing_controller_def init_optimizer_def)
  have c: "buy_amount_sol (snd (recovery_mode ex_losing_controller)) = 7/100"
    "sell_multiplier (snd (recovery_mode ex_losing_controller)) = 22/10"
    by (simp_all add: recovery_mode_fields ex_losing_controller_def init_optimizer_def
        ex_state_def init_decision_module_def)
  have r: "best_params (fst ex_rollback_controller) = Some (5, 9)"
    "below_best_times (sim_profit (fst ex_rollback_controller))
        (best_profit (fst ex_rollback_controller)) 0.5"
    "\<not> freeze (fst ex_rollback_controller)"
    by (simp_all add: ex_rollback_controller_def init_optimizer_def below_best_times_def)
  from controller_bounds[where c="observe 0 ex_trades ex_controller"] a
  have d: "params_in_range (snd (dynamic_adjust (observe 0 ex_trades ex_controller)))" by blast
  from controller_bounds[where c=ex_losing_controller] b
  have e: "params_in_range (snd (recovery_mode ex_losing_controller))" by blast
  from controller_bounds[where c=ex_rollback_controller and bb=5 and bs=9] r
  have f: "buy_amount_sol (snd (rollback_to_best ex_rollback_controller)) = 5"
    "sell_multiplier (snd (rollback_to_best ex_rollback_controller)) = 9" by blast+
  from a b l c d e f r ex_observed(2) show ?thesis by blast
qed

end
